theory Spec2Isabelle
  imports Main "HOL-Library.Word" "HOL-Library.AList"
begin

section \<open>The block downloader of go-seele (seele/download/downloader.go)\<close>

text \<open>
  A shallow embedding of \<^verbatim>\<open>downloader.go\<close>. The \<^verbatim>\<open>Downloader\<close> struct is a record that is
  passed in and returned updated. Go's \<^verbatim>\<open>uint64\<close> heights are 64-bit words, Go's \<^verbatim>\<open>int\<close>
  counters are integers (they are sums of slice lengths and \<^verbatim>\<open>maxFetchAncestry\<close>, which is
  at most 90000, so they stay far inside the 64 bits of an \<^verbatim>\<open>int\<close>; the conversion
  \<^verbatim>\<open>uint64(cmpCount)\<close> is \<open>word_of_int\<close>), \<^verbatim>\<open>*big.Int\<close> total difficulties are
  integers. An \<^verbatim>\<open>error\<close> result is an \<open>error option\<close> (\<open>None\<close> is \<^verbatim>\<open>nil\<close>), a
  \<^verbatim>\<open>(value, error)\<close> result is a sum with the error on the left. Whatever a call waits for
  (a message of the peer, the exit of the workers) is read from a script given as an
  argument; a call that is still waiting when its script is used up has the value \<open>None\<close>.
\<close>

subsection \<open>Constants and errors\<close>

definition MaxBlockFetch :: int where
  "MaxBlockFetch = 128"

definition MaxHeaderFetch :: int where
  "MaxHeaderFetch = 256"

definition MaxForkAncestry :: int where
  "MaxForkAncestry = 90000"

datatype sync_status = statusNone | statusPreparing | statusFetching | statusCleaning

text \<open>
  The error values of the file, \<^verbatim>\<open>core.ErrBlockAlreadyExist\<close>, and \<open>External\<close> for every
  error value made outside this file (by the connection, the codec, the store, the chain
  writer or the peer), told apart by its message.
\<close>

datatype error =
    errHashNotMatch
  | errInvalidAncestor
  | errInvalidPacketRecved
  | errIsSynchronising
  | errMaxForkAncestor
  | errPeerNotFound
  | errSyncErr
  | ErrBlockAlreadyExist
  | External string

datatype event = DownloaderStartEvent | DownloaderDoneEvent | DownloaderFailedEvent

subsection \<open>Headers, blocks, peers and the chain\<close>

type_synonym hash = nat

definition EmptyHash :: hash where
  "EmptyHash = 0"

text \<open>
  Modelled from the spec: \<^verbatim>\<open>types.BlockHeader\<close>, \<^verbatim>\<open>types.Block\<close> and the method \<^verbatim>\<open>Hash()\<close>
  are not in this file. The spec gives a header a height, a previous hash and a
  content-addressed hash; the content that \<^verbatim>\<open>Hash()\<close> digests is kept as the digest.
\<close>

record BlockHeader =
  PreviousBlockHash :: hash
  Height :: "64 word"
  Digest :: hash

definition Hash :: "BlockHeader \<Rightarrow> hash" where
  "Hash h = Digest h"

record Block =
  HeaderHash :: hash
  Header :: BlockHeader

text \<open>
  Modelled from the spec: the interface \<^verbatim>\<open>Peer\<close> is not in this file; \<^verbatim>\<open>Head()\<close> returns the
  head hash and the total difficulty the peer advertises.
\<close>

record Peer =
  headHash :: hash
  headTD :: int

definition Head :: "Peer \<Rightarrow> hash \<times> int" where
  "Head p = (headHash p, headTD p)"

datatype chan = ChOpen | ChClosed

text \<open>
  Modelled from the spec: \<^verbatim>\<open>peerConn\<close> and \<^verbatim>\<open>newPeerConn\<close> are not in this file. A
  connection wraps a peer handle with its identifier and a quit signal.
\<close>

record peerConn =
  peerID :: string
  peer :: Peer
  quitCh :: chan

definition newPeerConn :: "Peer \<Rightarrow> string \<Rightarrow> peerConn" where
  "newPeerConn p pid = \<lparr>peerID = pid, peer = p, quitCh = ChOpen\<rparr>"

text \<open>
  What \<^verbatim>\<open>conn.waitMsg\<close> followed by \<^verbatim>\<open>common.Deserialize\<close> yields: the wait fails, the
  payload does not decode, or the decoded payload.
\<close>

datatype 'a reply = WaitFailed error | Undecodable error | Payload 'a

text \<open>
  A request sent to a peer: \<^verbatim>\<open>RequestHeadersByHashOrNumber(hash, number, amount, reverse)\<close>.
\<close>

record request =
  reqHash :: hash
  reqStart :: "64 word"
  reqCount :: int
  reqReverse :: bool

text \<open>
  The part of \<^verbatim>\<open>core.Blockchain\<close> the ancestor search reads: the height of
  \<^verbatim>\<open>CurrentBlock()\<close> and \<^verbatim>\<open>GetStore().GetBlockHash\<close>.
\<close>

record blockchain =
  currentHeight :: "64 word"
  GetBlockHash :: "64 word \<Rightarrow> error + hash"

subsection \<open>The task manager\<close>

text \<open>
  Modelled from the spec: \<^verbatim>\<open>taskMgr\<close>, \<^verbatim>\<open>newTaskMgr\<close>, \<^verbatim>\<open>isDone\<close>,
  \<^verbatim>\<open>close\<close> and \<^verbatim>\<open>masterHeadInfo\<close> are not in this file. The spec: one slot per height
  of the range, \<^verbatim>\<open>is_done()\<close> is true iff all slots are \<^verbatim>\<open>Processed\<close>, \<^verbatim>\<open>close()\<close>
  makes the manager terminal.
\<close>

datatype task_status =
    Pending | HeaderRequested | HeaderDelivered | BlockRequested | BlockDelivered
  | taskStatusProcessed

record taskMgr =
  tmMaster :: string
  fromNo :: "64 word"
  toNo :: "64 word"
  slots :: "task_status list"
  tmClosed :: bool

definition newTaskMgr :: "string \<Rightarrow> 64 word \<Rightarrow> 64 word \<Rightarrow> taskMgr" where
  "newTaskMgr master from to =
     \<lparr>tmMaster = master, fromNo = from, toNo = to,
      slots = replicate (if from \<le> to then Suc (unat (to - from)) else 0) Pending,
      tmClosed = False\<rparr>"

definition isDone :: "taskMgr \<Rightarrow> bool" where
  "isDone t = list_all (\<lambda>s. s = taskStatusProcessed) (slots t)"

definition closeTm :: "taskMgr \<Rightarrow> taskMgr" where
  "closeTm t = t\<lparr>tmClosed := True\<rparr>"

record masterHeadInfo =
  block :: Block
  status :: task_status

subsection \<open>The downloader\<close>

text \<open>
  The fields of the struct; \<open>peers\<close> is the map as a list of pairs with distinct keys
  (Go ranges over a map in no fixed order, here it is the order of the list), \<open>sessionWG\<close>
  is the counter of the wait group. Two logs stand for what the struct does not hold:
  \<open>fired\<close>, the events fired on the process-wide event manager, and \<open>spawned\<close>, the
  connections for which \<^verbatim>\<open>go d.peerDownload\<close> was started, both in order.
\<close>

record Downloader =
  cancelCh :: "chan option"
  masterPeer :: string
  peers :: "(string \<times> peerConn) list"
  syncStatus :: sync_status
  tm :: "taskMgr option"
  sessionWG :: nat
  fired :: "event list"
  spawned :: "peerConn list"

definition NewDownloader :: Downloader where
  "NewDownloader =
     \<lparr>cancelCh = None, masterPeer = [], peers = [], syncStatus = statusNone, tm = None,
      sessionWG = 0, fired = [], spawned = []\<rparr>"

definition Fire :: "event \<Rightarrow> Downloader \<Rightarrow> Downloader" where
  "Fire e d = d\<lparr>fired := fired d @ [e]\<rparr>"

text \<open>\<^verbatim>\<open>Cancel\<close>: closes the session's channel unless there is none or it is closed.\<close>

definition Cancel :: "Downloader \<Rightarrow> Downloader" where
  "Cancel d =
     (case cancelCh d of
        None \<Rightarrow> d
      | Some ChClosed \<Rightarrow> d
      | Some ChOpen \<Rightarrow> d\<lparr>cancelCh := Some ChClosed\<rparr>)"

text \<open>\<^verbatim>\<open>sessionWG.Add(1); go d.peerDownload(c, tm)\<close>\<close>

definition spawn :: "peerConn \<Rightarrow> Downloader \<Rightarrow> Downloader" where
  "spawn c d = d\<lparr>sessionWG := Suc (sessionWG d), spawned := spawned d @ [c]\<rparr>"

text \<open>
  What a worker does to the downloader between leaving its loop and returning (lines 392
  to 394 and the deferred \<^verbatim>\<open>sessionWG.Done()\<close>): the worker of the master calls
  \<^verbatim>\<open>d.Cancel()\<close>, every worker takes one off the counter.
\<close>

definition workerExit :: "peerConn \<Rightarrow> Downloader \<Rightarrow> Downloader" where
  "workerExit conn d =
     (let bMaster = (peerID conn = masterPeer d);
          d1 = (if bMaster then Cancel d else d)
      in d1\<lparr>sessionWG := sessionWG d1 - 1\<rparr>)"

text \<open>The downloader once each of the workers has returned.\<close>

fun joinWorkers :: "peerConn list \<Rightarrow> Downloader \<Rightarrow> Downloader" where
  "joinWorkers [] d = d"
| "joinWorkers (c # cs) d = joinWorkers cs (workerExit c d)"

definition RegisterPeer :: "Downloader \<Rightarrow> string \<Rightarrow> Peer \<Rightarrow> Downloader" where
  "RegisterPeer d pid p =
     (let newConn = newPeerConn p pid;
          d1 = d\<lparr>peers := AList.update pid newConn (peers d)\<rparr>
      in if syncStatus d1 = statusFetching then spawn newConn d1 else d1)"

text \<open>
  \<^verbatim>\<open>UnRegisterPeer\<close>: the connection found is closed and leaves the table; only a worker
  that holds it sees its quit signal, and reads that from its own script.
\<close>

definition UnRegisterPeer :: "Downloader \<Rightarrow> string \<Rightarrow> Downloader" where
  "UnRegisterPeer d pid =
     (case map_of (peers d) pid of
        None \<Rightarrow> d
      | Some c \<Rightarrow> d\<lparr>peers := AList.delete pid (peers d)\<rparr>)"

subsection \<open>fetchHeight and findCommonAncestorHeight\<close>

text \<open>
  \<^verbatim>\<open>fetchHeight\<close> asks for the one header at the peer's head hash and reads the first reply
  of the script.
\<close>

definition fetchHeight ::
  "peerConn \<Rightarrow> BlockHeader list reply list \<Rightarrow> (error + BlockHeader) option" where
  "fetchHeight conn script =
     (let head = fst (Head (peer conn)) in
      case script of
        [] \<Rightarrow> None
      | r # rest \<Rightarrow>
          (case r of
             WaitFailed e \<Rightarrow> Some (Inl e)
           | Undecodable e \<Rightarrow> Some (Inl e)
           | Payload headers \<Rightarrow>
               if length headers \<noteq> 1 then Some (Inl errInvalidPacketRecved)
               else if Hash (hd headers) \<noteq> head then Some (Inl errHashNotMatch)
               else Some (Inr (hd headers))))"

text \<open>The inner loop of the search (lines 237 to 246): \<open>None\<close> when no header matched.\<close>

fun compareHeaders :: "blockchain \<Rightarrow> BlockHeader list \<Rightarrow> (error + 64 word) option" where
  "compareHeaders chn [] = None"
| "compareHeaders chn (h # hs) =
     (let cmpHeight = Height h in
      case GetBlockHash chn cmpHeight of
        Inl err \<Rightarrow> Some (Inl err)
      | Inr localHash \<Rightarrow>
          if localHash = Hash h then Some (Inr cmpHeight) else compareHeaders chn hs)"

definition fetchCountOf :: "int \<Rightarrow> int \<Rightarrow> int" where
  "fetchCountOf maxFetchAncestry cmpCount =
     (if maxFetchAncestry - cmpCount \<ge> MaxHeaderFetch then MaxHeaderFetch
      else maxFetchAncestry - cmpCount)"

definition headersRequest :: "64 word \<Rightarrow> int \<Rightarrow> int \<Rightarrow> request" where
  "headersRequest topH maxFetchAncestry cmpCount =
     \<lparr>reqHash = EmptyHash, reqStart = topH - word_of_int cmpCount,
      reqCount = fetchCountOf maxFetchAncestry cmpCount, reqReverse = True\<rparr>"

text \<open>
  The outer loop (lines 207 to 247), one reply of the script per round. The result is the
  value returned, if any, and the requests sent, in order.
\<close>

fun ancestorLoop ::
  "blockchain \<Rightarrow> 64 word \<Rightarrow> int \<Rightarrow> int \<Rightarrow> BlockHeader list reply list
     \<Rightarrow> (error + 64 word) option \<times> request list" where
  "ancestorLoop chn topH mfa cmpCount [] =
     (if fetchCountOf mfa cmpCount = 0 then (Some (Inl errMaxForkAncestor), [])
      else (None, [headersRequest topH mfa cmpCount]))"
| "ancestorLoop chn topH mfa cmpCount (r # rest) =
     (if fetchCountOf mfa cmpCount = 0 then (Some (Inl errMaxForkAncestor), [])
      else
        (case r of
           WaitFailed e \<Rightarrow> (Some (Inl e), [headersRequest topH mfa cmpCount])
         | Undecodable e \<Rightarrow> (Some (Inl e), [headersRequest topH mfa cmpCount])
         | Payload headers \<Rightarrow>
             if length headers = 0
             then (Some (Inl errInvalidAncestor), [headersRequest topH mfa cmpCount])
             else
               (case compareHeaders chn headers of
                  Some res \<Rightarrow> (Some res, [headersRequest topH mfa cmpCount])
                | None \<Rightarrow>
                    (case ancestorLoop chn topH mfa (cmpCount + int (length headers)) rest of
                       (res, reqs) \<Rightarrow> (res, headersRequest topH mfa cmpCount # reqs)))))"

definition topHeight :: "64 word \<Rightarrow> 64 word \<Rightarrow> 64 word" where
  "topHeight localHeight height = (if localHeight \<le> height then localHeight else height)"

definition maxFetchAncestryOf :: "64 word \<Rightarrow> int" where
  "maxFetchAncestryOf topH =
     (if topH \<ge> word_of_int MaxForkAncestry then MaxForkAncestry else sint topH + 1)"

definition findCommonAncestorHeight ::
  "blockchain \<Rightarrow> 64 word \<Rightarrow> BlockHeader list reply list
     \<Rightarrow> (error + 64 word) option \<times> request list" where
  "findCommonAncestorHeight chn height script =
     (let localHeight = currentHeight chn;
          topH = topHeight localHeight height
      in if topH = 0 then (Some (Inr topH), [])
         else ancestorLoop chn topH (maxFetchAncestryOf topH) 0 script)"

subsection \<open>Synchronise and doSynchronise\<close>

text \<open>The loop of lines 134 to 142 over the peer table.\<close>

fun spawnWorkers :: "int \<Rightarrow> (string \<times> peerConn) list \<Rightarrow> Downloader \<Rightarrow> Downloader" where
  "spawnWorkers localTD [] d = d"
| "spawnWorkers localTD (kc # rest) d =
     (let c = snd kc; peerTD = snd (Head (peer c))
      in if localTD \<ge> peerTD then spawnWorkers localTD rest d
         else spawnWorkers localTD rest (spawn c d))"

text \<open>The deferred function of \<^verbatim>\<open>doSynchronise\<close>, run with the error being returned.\<close>

definition deferred :: "error option \<Rightarrow> Downloader \<Rightarrow> error option \<times> Downloader" where
  "deferred err d =
     (if err \<noteq> None then (err, Fire DownloaderFailedEvent d)
      else (err, Fire DownloaderDoneEvent d))"

text \<open>
  \<^verbatim>\<open>doSynchronise\<close>. \<open>script\<close> holds the replies of the master's connection: the first is
  read by \<^verbatim>\<open>fetchHeight\<close>, the others by the ancestor search. The workers run
  concurrently; \<open>join t\<close> is the task manager as it is once \<^verbatim>\<open>sessionWG.Wait()\<close> has
  returned, \<open>None\<close> if the workers never all exit. When it has returned, every worker
  spawned at the transition has returned: the downloader is then what \<open>joinWorkers\<close>
  makes of it, with the cancel channel closed if the master had a worker.
\<close>

definition doSynchronise ::
  "Downloader \<Rightarrow> blockchain \<Rightarrow> peerConn \<Rightarrow> hash \<Rightarrow> int \<Rightarrow> int
     \<Rightarrow> BlockHeader list reply list \<Rightarrow> (taskMgr \<Rightarrow> taskMgr option)
     \<Rightarrow> (error option \<times> Downloader) option" where
  "doSynchronise d chn conn head td localTD script join =
     (let d0 = Fire DownloaderStartEvent d in
      case fetchHeight conn script of
        None \<Rightarrow> None
      | Some (Inl err) \<Rightarrow> Some (deferred (Some err) d0)
      | Some (Inr latest) \<Rightarrow>
          (let height = Height latest in
           case fst (findCommonAncestorHeight chn height (tl script)) of
             None \<Rightarrow> None
           | Some (Inl err) \<Rightarrow> Some (deferred (Some err) d0)
           | Some (Inr ancestor) \<Rightarrow>
               (let t = newTaskMgr (masterPeer d0) (ancestor + 1) height;
                    d1 = d0\<lparr>tm := Some t\<rparr>;
                    d2 = d1\<lparr>syncStatus := statusFetching\<rparr>;
                    d3 = spawnWorkers localTD (peers d2) d2
                in case join t of
                     None \<Rightarrow> None
                   | Some t' \<Rightarrow>
                       (let ws = drop (length (spawned d2)) (spawned d3);
                            d4 = (joinWorkers ws d3)\<lparr>sessionWG := 0\<rparr>;
                            d5 = d4\<lparr>syncStatus := statusCleaning\<rparr>;
                            t'' = closeTm t';
                            d6 = d5\<lparr>tm := None\<rparr>
                        in if isDone t'' then Some (deferred None d6)
                           else Some (deferred (Some errSyncErr) d6)))))"

definition Synchronise ::
  "Downloader \<Rightarrow> blockchain \<Rightarrow> string \<Rightarrow> hash \<Rightarrow> int \<Rightarrow> int
     \<Rightarrow> BlockHeader list reply list \<Rightarrow> (taskMgr \<Rightarrow> taskMgr option)
     \<Rightarrow> (error option \<times> Downloader) option" where
  "Synchronise d chn pid head td localTD script join =
     (if syncStatus d \<noteq> statusNone then Some (Some errIsSynchronising, d)
      else
        (let d1 = d\<lparr>syncStatus := statusPreparing, cancelCh := Some ChOpen, masterPeer := pid\<rparr>
         in case map_of (peers d1) pid of
              None \<Rightarrow>
                Some (Some errPeerNotFound, d1\<lparr>cancelCh := Some ChClosed, syncStatus := statusNone\<rparr>)
            | Some p \<Rightarrow>
                (case doSynchronise d1 chn p head td localTD script join of
                   None \<Rightarrow> None
                 | Some (err, d2) \<Rightarrow>
                     Some (err, d2\<lparr>syncStatus := statusNone, sessionWG := 0, cancelCh := None\<rparr>))))"

subsection \<open>peerDownload\<close>

text \<open>
  One round of the worker's loop reads what the task manager, the peer and the connection
  answer in that round: \<^verbatim>\<open>tm.isDone()\<close>, \<^verbatim>\<open>tm.getReqHeaderInfo\<close>, the result of sending the
  header request, the reply waited for, \<^verbatim>\<open>tm.deliverHeaderMsg\<close>, \<^verbatim>\<open>tm.getReqBlocks\<close>, the
  result of sending the block request, the two replies waited for, and the case the
  \<^verbatim>\<open>select\<close> of the idle wait takes. An answer the round does not ask for is not read.
\<close>

datatype idle = IdleCancel | IdleQuit | IdleTimeout

record turn =
  tDone :: bool
  tHeaderInfo :: "64 word \<times> int"
  tHeaderSend :: "error option"
  tHeaderReply :: "BlockHeader list reply"
  tHeaderDeliver :: "error option"
  tBlockInfo :: "64 word \<times> int"
  tBlockSend :: "error option"
  tPreReply :: "64 word list reply"
  tBlocksReply :: "Block list reply"
  tIdle :: idle

text \<open>
  Modelled from the spec: \<^verbatim>\<open>peerConn.waitMsg\<close> is not in this file. The spec: a wait
  returns the message that arrives, or fails once the cancel signal has fired or the
  connection is closed, and every wait observes cancellation. So a wait on a closed cancel
  channel fails; otherwise it yields the reply of the script (a channel that is closed
  while the worker waits is a reply \<open>WaitFailed\<close>). A \<^verbatim>\<open>nil\<close> channel never fires.
  \<^verbatim>\<open>fetchHeight\<close> and the ancestor search wait on the channel \<^verbatim>\<open>Synchronise\<close> has just
  made, which nothing in the run closes before the workers start: there the reply of the
  script is what the wait yields.
\<close>

definition waitMsg :: "chan option \<Rightarrow> 'a reply \<Rightarrow> 'a reply" where
  "waitMsg cancel r = (if cancel = Some ChClosed then WaitFailed (External ''cancelled'') else r)"

text \<open>
  The \<^verbatim>\<open>select\<close> of lines 379 to 387. On a closed cancel channel its first case is ready
  at once and the timer of the third is not: the timeout is not taken.
\<close>

definition idleSelect :: "chan option \<Rightarrow> idle \<Rightarrow> idle" where
  "idleSelect cancel i = (if cancel = Some ChClosed \<and> i = IdleTimeout then IdleCancel else i)"

text \<open>
  Lines 318 to 336: the error of the \<^verbatim>\<open>break\<close> taken, if one is. \<open>cancel\<close> is
  \<^verbatim>\<open>d.cancelCh\<close>.
\<close>

definition fetchHeaders :: "chan option \<Rightarrow> turn \<Rightarrow> error option" where
  "fetchHeaders cancel t =
     (case tHeaderSend t of
        Some err \<Rightarrow> Some err
      | None \<Rightarrow>
          (case waitMsg cancel (tHeaderReply t) of
             WaitFailed err \<Rightarrow> Some err
           | Undecodable err \<Rightarrow> Some err
           | Payload headers \<Rightarrow> tHeaderDeliver t))"

text \<open>Lines 342 to 371; \<^verbatim>\<open>deliverBlockPreMsg\<close> and \<^verbatim>\<open>deliverBlockMsg\<close> return nothing.\<close>

definition fetchBlocks :: "chan option \<Rightarrow> turn \<Rightarrow> error option" where
  "fetchBlocks cancel t =
     (case tBlockSend t of
        Some err \<Rightarrow> Some err
      | None \<Rightarrow>
          (case waitMsg cancel (tPreReply t) of
             WaitFailed err \<Rightarrow> Some err
           | Undecodable err \<Rightarrow> Some err
           | Payload blockNums \<Rightarrow>
               (case waitMsg cancel (tBlocksReply t) of
                  WaitFailed err \<Rightarrow> Some err
                | Undecodable err \<Rightarrow> Some err
                | Payload blocks \<Rightarrow> None)))"

text \<open>
  How the loop was left: its condition was false, a \<^verbatim>\<open>break\<close> after an error, or the
  \<^verbatim>\<open>break outLoop\<close> of the cancel case or of the quit case.
\<close>

datatype loop_exit = LoopDone | LoopBroken error | LoopCancelled | LoopPeerQuit

fun workerLoop :: "chan option \<Rightarrow> turn list \<Rightarrow> loop_exit option" where
  "workerLoop cancel [] = None"
| "workerLoop cancel (t # ts) =
     (if tDone t then Some LoopDone
      else
        (case (if snd (tHeaderInfo t) > 0 then fetchHeaders cancel t else None) of
           Some err \<Rightarrow> Some (LoopBroken err)
         | None \<Rightarrow>
             (case (if snd (tBlockInfo t) > 0 then fetchBlocks cancel t else None) of
                Some err \<Rightarrow> Some (LoopBroken err)
              | None \<Rightarrow>
                  (let hasReqData = (snd (tHeaderInfo t) > 0 \<or> snd (tBlockInfo t) > 0)
                   in if hasReqData then workerLoop cancel ts
                      else
                        (case idleSelect cancel (tIdle t) of
                           IdleCancel \<Rightarrow> Some LoopCancelled
                         | IdleQuit \<Rightarrow> Some LoopPeerQuit
                         | IdleTimeout \<Rightarrow> workerLoop cancel ts)))))"

text \<open>
  \<^verbatim>\<open>peerDownload\<close>, run while nothing else changes the downloader: the loop, then
  \<^verbatim>\<open>tm.onPeerQuit(peerID)\<close>, then \<^verbatim>\<open>d.Cancel()\<close> for the master, then the deferred
  \<^verbatim>\<open>sessionWG.Done()\<close>, which panics on a counter of zero. The value returned holds the
  downloader, how the loop was left and the peer that \<^verbatim>\<open>onPeerQuit\<close> was called with.
\<close>

definition peerDownload ::
  "Downloader \<Rightarrow> peerConn \<Rightarrow> turn list \<Rightarrow> (string + Downloader \<times> loop_exit \<times> string) option" where
  "peerDownload d conn ts =
     (let bMaster = (peerID conn = masterPeer d);
          pid = peerID conn
      in case workerLoop (cancelCh d) ts of
           None \<Rightarrow> None
         | Some why \<Rightarrow>
             (let d1 = (if bMaster then Cancel d else d)
              in if sessionWG d1 = 0 then Some (Inl ''sync: negative WaitGroup counter'')
                 else Some (Inr (d1\<lparr>sessionWG := sessionWG d1 - 1\<rparr>, why, pid))))"

text \<open>
  The workers of a list run one after the other, each on its own answers and on the
  downloader the ones before it have left: one of the orders in which they can return.
\<close>

fun runWorkers :: "(peerConn \<times> turn list) list \<Rightarrow> Downloader \<Rightarrow> Downloader option" where
  "runWorkers [] d = Some d"
| "runWorkers (w # ws) d =
     (case peerDownload d (fst w) (snd w) of
        Some (Inr res) \<Rightarrow> runWorkers ws (fst res)
      | _ \<Rightarrow> None)"

subsection \<open>processBlocks\<close>

text \<open>
  \<^verbatim>\<open>processBlocks\<close> (the second loop; the first only logs). \<open>wb\<close> is \<^verbatim>\<open>chain.WriteBlock\<close>
  on a chain state of any type. The value returned holds the downloader, the chain, the
  entries with their status, and the blocks \<^verbatim>\<open>WriteBlock\<close> was called with, in order.
\<close>

fun processBlocks ::
  "('c \<Rightarrow> Block \<Rightarrow> error option \<times> 'c) \<Rightarrow> Downloader \<Rightarrow> 'c \<Rightarrow> masterHeadInfo list
     \<Rightarrow> Downloader \<times> 'c \<times> masterHeadInfo list \<times> Block list" where
  "processBlocks wb d c [] = (d, c, [], [])"
| "processBlocks wb d c (h # hs) =
     (case wb c (block h) of
        (err, c') \<Rightarrow>
          if err \<noteq> None \<and> err \<noteq> Some ErrBlockAlreadyExist
          then (Cancel d, c', h # hs, [block h])
          else
            (case processBlocks wb d c' hs of
               (d', c'', hs', written) \<Rightarrow>
                 (d', c'', h\<lparr>status := taskStatusProcessed\<rparr> # hs', block h # written)))"

subsection \<open>Notions the properties are stated with\<close>

text \<open>The headers of the payloads of a script, in the order they arrive.\<close>

fun headersOf :: "BlockHeader list reply list \<Rightarrow> BlockHeader list" where
  "headersOf [] = []"
| "headersOf (Payload hs # rs) = hs @ headersOf rs"
| "headersOf (r # rs) = headersOf rs"

text \<open>The local chain has a hash at the header's height, and it is not the header's.\<close>

definition differs :: "blockchain \<Rightarrow> BlockHeader \<Rightarrow> bool" where
  "differs chn h = (case GetBlockHash chn (Height h) of Inl err \<Rightarrow> False | Inr x \<Rightarrow> x \<noteq> Hash h)"

text \<open>The replies are payloads with at least one header, none of which matches.\<close>

fun unmatched :: "blockchain \<Rightarrow> BlockHeader list reply list \<Rightarrow> bool" where
  "unmatched chn [] = True"
| "unmatched chn (Payload hs # rs) = (hs \<noteq> [] \<and> list_all (differs chn) hs \<and> unmatched chn rs)"
| "unmatched chn (r # rs) = False"

text \<open>The error values the replies of a script carry.\<close>

fun replyErrors :: "'a reply list \<Rightarrow> error set" where
  "replyErrors [] = {}"
| "replyErrors (WaitFailed e # rs) = insert e (replyErrors rs)"
| "replyErrors (Undecodable e # rs) = insert e (replyErrors rs)"
| "replyErrors (Payload x # rs) = replyErrors rs"

text \<open>The table holds each identifier once, with a connection of that identifier.\<close>

definition wellKeyed :: "(string \<times> peerConn) list \<Rightarrow> bool" where
  "wellKeyed ps = (distinct (map fst ps) \<and> list_all (\<lambda>kc. peerID (snd kc) = fst kc) ps)"

text \<open>The chain after \<^verbatim>\<open>WriteBlock\<close> was called with each of the blocks.\<close>

fun chainAfter :: "('c \<Rightarrow> Block \<Rightarrow> error option \<times> 'c) \<Rightarrow> 'c \<Rightarrow> Block list \<Rightarrow> 'c" where
  "chainAfter wb c [] = c"
| "chainAfter wb c (b # bs) = chainAfter wb (snd (wb c b)) bs"

text \<open>Each of the blocks is written with the result \<^verbatim>\<open>nil\<close> or \<^verbatim>\<open>ErrBlockAlreadyExist\<close>.\<close>

fun accepted :: "('c \<Rightarrow> Block \<Rightarrow> error option \<times> 'c) \<Rightarrow> 'c \<Rightarrow> Block list \<Rightarrow> bool" where
  "accepted wb c [] = True"
| "accepted wb c (b # bs) =
     ((fst (wb c b) = None \<or> fst (wb c b) = Some ErrBlockAlreadyExist)
      \<and> accepted wb (snd (wb c b)) bs)"

subsection \<open>A concrete session\<close>

text \<open>
  The local chain has the heights 0 to 5, with the hash \<open>100 + n\<close> at height \<open>n\<close>. The
  master \<open>''m''\<close> advertises the head 107 at height 7; its header at height 5 is not
  the local one, its header at height 4 is. A second peer \<open>''q''\<close> advertises a total
  difficulty of 5.
\<close>

definition exChain :: blockchain where
  "exChain =
     \<lparr>currentHeight = 5,
      GetBlockHash = (\<lambda>n. if n \<le> 5 then Inr (100 + unat n) else Inl (External ''not found''))\<rparr>"

definition mkHeader :: "64 word \<Rightarrow> hash \<Rightarrow> BlockHeader" where
  "mkHeader n dg = \<lparr>PreviousBlockHash = 0, Height = n, Digest = dg\<rparr>"

definition exPeer :: Peer where
  "exPeer = \<lparr>headHash = 107, headTD = 50\<rparr>"

definition exWeakPeer :: Peer where
  "exWeakPeer = \<lparr>headHash = 103, headTD = 5\<rparr>"

definition exDownloader :: Downloader where
  "exDownloader = RegisterPeer (RegisterPeer NewDownloader ''m'' exPeer) ''q'' exWeakPeer"

definition exScript :: "BlockHeader list reply list" where
  "exScript = [Payload [mkHeader 7 107], Payload [mkHeader 5 999, mkHeader 4 104]]"

text \<open>Workers that process every slot before they exit.\<close>

definition exJoin :: "taskMgr \<Rightarrow> taskMgr option" where
  "exJoin t = Some (t\<lparr>slots := map (\<lambda>s. taskStatusProcessed) (slots t)\<rparr>)"

text \<open>
  Six headers of the master from height 5 down to 0, none of them the local one; and a
  reply whose second header has a height the local chain does not have.
\<close>

definition exDeep :: "BlockHeader list reply list" where
  "exDeep = [Payload [mkHeader 5 999, mkHeader 4 998, mkHeader 3 997],
             Payload [mkHeader 2 996, mkHeader 1 995, mkHeader 0 994]]"

definition exAbove :: "BlockHeader list reply list" where
  "exAbove = [Payload [mkHeader 7 107], Payload [mkHeader 5 999, mkHeader 9 1, mkHeader 4 104]]"

text \<open>
  The downloader as \<^verbatim>\<open>Synchronise\<close> hands it to \<^verbatim>\<open>doSynchronise\<close>, and as it is while
  one worker runs.
\<close>

definition exSession :: Downloader where
  "exSession = exDownloader\<lparr>syncStatus := statusPreparing, cancelCh := Some ChOpen, masterPeer := ''m''\<rparr>"

definition exWorking :: Downloader where
  "exWorking = exSession\<lparr>syncStatus := statusFetching, sessionWG := 1\<rparr>"




text \<open>
  A chain writer over the list of hashes written: a hash it holds already exists, the
  hash 0 is refused, any other hash is appended.
\<close>

definition exWrite :: "hash list \<Rightarrow> Block \<Rightarrow> error option \<times> hash list" where
  "exWrite c b =
     (if HeaderHash b \<in> set c then (Some ErrBlockAlreadyExist, c)
      else if HeaderHash b = 0 then (Some (External ''invalid block''), c)
      else (None, c @ [HeaderHash b]))"

definition mkInfo :: "64 word \<Rightarrow> hash \<Rightarrow> masterHeadInfo" where
  "mkInfo n dg = \<lparr>block = \<lparr>HeaderHash = dg, Header = mkHeader n dg\<rparr>, status = BlockDelivered\<rparr>"

section \<open>Properties\<close>

subsection \<open>The concrete session, evaluated\<close>

lemma ex_peers:
  "peers exDownloader =
     [(''m'', newPeerConn exPeer ''m''), (''q'', newPeerConn exWeakPeer ''q'')]"
  by (simp add: exDownloader_def RegisterPeer_def NewDownloader_def Let_def)

lemma ex_status: "syncStatus exDownloader = statusNone"
  by (simp add: exDownloader_def RegisterPeer_def NewDownloader_def Let_def)

lemma ex_fired: "fired exDownloader = []"
  by (simp add: exDownloader_def RegisterPeer_def NewDownloader_def Let_def)

lemma ex_spawned: "spawned exDownloader = []"
  by (simp add: exDownloader_def RegisterPeer_def NewDownloader_def Let_def)

lemma ex_fetch: "fetchHeight (newPeerConn exPeer ''m'') exScript = Some (Inr (mkHeader 7 107))"
  by (simp add: fetchHeight_def exScript_def newPeerConn_def exPeer_def Head_def Hash_def
      mkHeader_def)


lemma ex_height: "Height (mkHeader n dg) = n"
  by (simp add: mkHeader_def)

lemma ex_walk:
  "findCommonAncestorHeight exChain 7 (tl exScript) =
     (Some (Inr 4), [\<lparr>reqHash = EmptyHash, reqStart = 5, reqCount = 6, reqReverse = True\<rparr>])"
  by (simp add: findCommonAncestorHeight_def exScript_def exChain_def topHeight_def
      maxFetchAncestryOf_def MaxForkAncestry_def fetchCountOf_def MaxHeaderFetch_def
      headersRequest_def mkHeader_def Hash_def Let_def)

lemma ex_join_done: "isDone (closeTm (the (exJoin t)))"
  by (simp add: exJoin_def isDone_def closeTm_def list_all_iff)

subsection \<open>Events and results of a session\<close>

lemma deferred_eq:
  "deferred r d =
     (r, d\<lparr>fired := fired d @ [if r = None then DownloaderDoneEvent else DownloaderFailedEvent]\<rparr>)"
  by (simp add: deferred_def Fire_def)

lemma Cancel_frame:
  "fired (Cancel d) = fired d" "spawned (Cancel d) = spawned d"
  "masterPeer (Cancel d) = masterPeer d" "sessionWG (Cancel d) = sessionWG d"
  by (simp_all add: Cancel_def split: option.splits chan.splits)

lemma workerExit_frame:
  "fired (workerExit c d) = fired d" "spawned (workerExit c d) = spawned d"
  "masterPeer (workerExit c d) = masterPeer d"
  by (simp_all add: workerExit_def Let_def Cancel_frame)

lemma joinWorkers_frame:
  "fired (joinWorkers cs d) = fired d" "spawned (joinWorkers cs d) = spawned d"
  "masterPeer (joinWorkers cs d) = masterPeer d"
  by (induction cs arbitrary: d) (simp_all add: workerExit_frame)

lemma spawn_fired: "fired (spawn c d) = fired d"
  by (simp add: spawn_def)

lemma spawnWorkers_fired: "fired (spawnWorkers l ps d) = fired d"
  by (induction ps arbitrary: d) (simp_all add: Let_def spawn_fired)

lemma doSynchronise_fired:
  assumes "doSynchronise d chn conn head td localTD script join = Some (r, d')"
  shows "fired d' =
     fired d @ [DownloaderStartEvent,
                if r = None then DownloaderDoneEvent else DownloaderFailedEvent]"
  using assms
  by (auto simp: doSynchronise_def deferred_eq Fire_def Let_def spawnWorkers_fired
      joinWorkers_frame split: option.splits sum.splits if_splits)

lemma doSynchronise_completed:
  assumes "fetchHeight conn script = Some (Inr latest)"
    and "fst (findCommonAncestorHeight chn (Height latest) (tl script)) = Some (Inr ancestor)"
    and "join (newTaskMgr (masterPeer d) (ancestor + 1) (Height latest)) = Some t'"
  shows "\<exists>d'. doSynchronise d chn conn head td localTD script join =
            Some (if isDone (closeTm t') then None else Some errSyncErr, d')"
  using assms
  by (simp add: doSynchronise_def deferred_eq Fire_def Let_def)

text \<open>
  C1. A session that gets as far as its workers (the height is fetched, the ancestor is
  found, the workers all exit) returns: \<^verbatim>\<open>doSynchronise\<close> returns \<^verbatim>\<open>nil\<close> exactly when
  \<^verbatim>\<open>isDone()\<close> holds of the task manager after \<^verbatim>\<open>close()\<close>, and \<^verbatim>\<open>errSyncErr\<close> otherwise.
  Whenever \<^verbatim>\<open>doSynchronise\<close> returns, early or not, it has fired \<^verbatim>\<open>DownloaderStartEvent\<close> and
  then \<^verbatim>\<open>DownloaderDoneEvent\<close> if the result is \<^verbatim>\<open>nil\<close>, \<^verbatim>\<open>DownloaderFailedEvent\<close> if it is an
  error.
\<close>

theorem doSynchronise_outcome:
  "(fetchHeight conn script = Some (Inr latest)
      \<and> fst (findCommonAncestorHeight chn (Height latest) (tl script)) = Some (Inr ancestor)
      \<and> join (newTaskMgr (masterPeer d) (ancestor + 1) (Height latest)) = Some t'
    \<longrightarrow> (\<exists>d'. doSynchronise d chn conn head td localTD script join =
               Some (if isDone (closeTm t') then None else Some errSyncErr, d')))
   \<and> (doSynchronise d chn conn head td localTD script join = Some (r, d'')
    \<longrightarrow> fired d'' =
          fired d @ [DownloaderStartEvent,
                     if r = None then DownloaderDoneEvent else DownloaderFailedEvent])"
proof (intro conjI impI)
  assume "fetchHeight conn script = Some (Inr latest)
      \<and> fst (findCommonAncestorHeight chn (Height latest) (tl script)) = Some (Inr ancestor)
      \<and> join (newTaskMgr (masterPeer d) (ancestor + 1) (Height latest)) = Some t'"
  then show "\<exists>d'. doSynchronise d chn conn head td localTD script join =
               Some (if isDone (closeTm t') then None else Some errSyncErr, d')"
    using doSynchronise_completed by blast
next
  assume "doSynchronise d chn conn head td localTD script join = Some (r, d'')"
  then show "fired d'' =
          fired d @ [DownloaderStartEvent,
                     if r = None then DownloaderDoneEvent else DownloaderFailedEvent]"
    by (rule doSynchronise_fired)
qed

text \<open>The concrete session completes, returns \<^verbatim>\<open>nil\<close> and fires start and done.\<close>

theorem doSynchronise_outcome_witness:
  "fetchHeight (newPeerConn exPeer ''m'') exScript = Some (Inr (mkHeader 7 107))
   \<and> fst (findCommonAncestorHeight exChain (Height (mkHeader 7 107)) (tl exScript)) = Some (Inr 4)
   \<and> exJoin (newTaskMgr (masterPeer exDownloader) (4 + 1) (Height (mkHeader 7 107)))
       = Some (the (exJoin (newTaskMgr (masterPeer exDownloader) (4 + 1) (Height (mkHeader 7 107)))))
   \<and> fst (the (doSynchronise exDownloader exChain (newPeerConn exPeer ''m'') 107 50 10
                  exScript exJoin)) = None
   \<and> fired (snd (the (doSynchronise exDownloader exChain (newPeerConn exPeer ''m'') 107 50 10
                  exScript exJoin))) = [DownloaderStartEvent, DownloaderDoneEvent]"
proof -
  let ?t = "the (exJoin (newTaskMgr (masterPeer exDownloader) (4 + 1) (Height (mkHeader 7 107))))"
  let ?run = "doSynchronise exDownloader exChain (newPeerConn exPeer ''m'') 107 50 10
                exScript exJoin"
  have h1: "fetchHeight (newPeerConn exPeer ''m'') exScript = Some (Inr (mkHeader 7 107))"
    by (rule ex_fetch)
  have h2: "fst (findCommonAncestorHeight exChain (Height (mkHeader 7 107)) (tl exScript))
      = Some (Inr 4)"
    by (simp add: ex_height ex_walk)
  have h3: "exJoin (newTaskMgr (masterPeer exDownloader) (4 + 1) (Height (mkHeader 7 107)))
      = Some ?t"
    by (simp add: exJoin_def)
  have fin: "isDone (closeTm ?t)"
    by (rule ex_join_done)
  from doSynchronise_outcome[of "newPeerConn exPeer ''m''" exScript "mkHeader 7 107" exChain 4
      exJoin exDownloader ?t 107 50 10 None "snd (the ?run)"] h1 h2 h3 fin
  have run: "\<exists>d'. ?run = Some (None, d')"
    and ev: "?run = Some (None, snd (the ?run)) \<longrightarrow>
      fired (snd (the ?run)) = fired exDownloader @ [DownloaderStartEvent, DownloaderDoneEvent]"
    by simp_all
  from run obtain d' where eq: "?run = Some (None, d')" by blast
  then have "?run = Some (None, snd (the ?run))" by simp
  with ev have "fired (snd (the ?run)) = [DownloaderStartEvent, DownloaderDoneEvent]"
    by (simp add: ex_fired)
  moreover from eq have "fst (the ?run) = None" by simp
  ultimately show ?thesis using h1 h2 h3 by blast
qed

subsection \<open>Early failures of Synchronise\<close>

text \<open>
  C2 (as amended). A call of \<^verbatim>\<open>Synchronise\<close> while a session is active (the status is not
  \<^verbatim>\<open>statusNone\<close>) returns \<^verbatim>\<open>errIsSynchronising\<close> at once and leaves the downloader as it
  was, so the status is still that of the active session. With no session active and the
  master not in the peer table it returns \<^verbatim>\<open>errPeerNotFound\<close>, and the status is
  \<^verbatim>\<open>statusNone\<close> when it returns.
\<close>

theorem Synchronise_early_failures:
  "(syncStatus d \<noteq> statusNone \<longrightarrow>
      Synchronise d chn pid head td localTD script join = Some (Some errIsSynchronising, d))
   \<and> (syncStatus d = statusNone \<and> map_of (peers d) pid = None \<longrightarrow>
        (\<exists>d'. Synchronise d chn pid head td localTD script join = Some (Some errPeerNotFound, d')
              \<and> syncStatus d' = statusNone))"
  by (simp add: Synchronise_def)

text \<open>Both failures, on the concrete downloader: busy while fetching, and an unknown master.\<close>

theorem Synchronise_early_failures_witness:
  "syncStatus (exDownloader\<lparr>syncStatus := statusFetching\<rparr>) \<noteq> statusNone
   \<and> Synchronise (exDownloader\<lparr>syncStatus := statusFetching\<rparr>) exChain ''m'' 107 50 10 exScript exJoin
       = Some (Some errIsSynchronising, exDownloader\<lparr>syncStatus := statusFetching\<rparr>)
   \<and> syncStatus exDownloader = statusNone
   \<and> map_of (peers exDownloader) ''z'' = None
   \<and> fst (the (Synchronise exDownloader exChain ''z'' 107 50 10 exScript exJoin))
       = Some errPeerNotFound
   \<and> syncStatus (snd (the (Synchronise exDownloader exChain ''z'' 107 50 10 exScript exJoin)))
       = statusNone"
proof -
  have busy: "syncStatus (exDownloader\<lparr>syncStatus := statusFetching\<rparr>) \<noteq> statusNone"
    by simp
  have idle: "syncStatus exDownloader = statusNone"
    by (rule ex_status)
  have unknown: "map_of (peers exDownloader) ''z'' = None"
    by (simp add: ex_peers)
  from Synchronise_early_failures[of "exDownloader\<lparr>syncStatus := statusFetching\<rparr>"
      exChain "''m''" 107 50 10 exScript exJoin] busy
  have a: "Synchronise (exDownloader\<lparr>syncStatus := statusFetching\<rparr>) exChain ''m'' 107 50 10
      exScript exJoin = Some (Some errIsSynchronising, exDownloader\<lparr>syncStatus := statusFetching\<rparr>)"
    by blast
  from Synchronise_early_failures[of exDownloader exChain "''z''" 107 50 10 exScript exJoin]
    idle unknown
  obtain d' where "Synchronise exDownloader exChain ''z'' 107 50 10 exScript exJoin
      = Some (Some errPeerNotFound, d')" and "syncStatus d' = statusNone"
    by blast
  then have b: "fst (the (Synchronise exDownloader exChain ''z'' 107 50 10 exScript exJoin))
        = Some errPeerNotFound
      \<and> syncStatus (snd (the (Synchronise exDownloader exChain ''z'' 107 50 10 exScript exJoin)))
        = statusNone"
    by simp
  from busy a idle unknown b show ?thesis by blast
qed

text \<open>
  C2 as it is stated fails for the busy case: the call made while the session is fetching
  returns \<^verbatim>\<open>errIsSynchronising\<close> with the status still \<^verbatim>\<open>statusFetching\<close>.
\<close>

theorem Synchronise_busy_counterexample:
  "fst (the (Synchronise (exDownloader\<lparr>syncStatus := statusFetching\<rparr>) exChain ''m'' 107 50 10
               exScript exJoin)) = Some errIsSynchronising
   \<and> syncStatus (snd (the (Synchronise (exDownloader\<lparr>syncStatus := statusFetching\<rparr>) exChain
               ''m'' 107 50 10 exScript exJoin))) = statusFetching
   \<and> statusFetching \<noteq> statusNone"
  by (simp add: Synchronise_def)

text \<open>
  C9. When \<^verbatim>\<open>Synchronise\<close> fails early (a session is active, or the master is not in the
  peer table) it returns \<^verbatim>\<open>errIsSynchronising\<close> or \<^verbatim>\<open>errPeerNotFound\<close> and fires no event.
  When it does not fail early and returns, control went through \<^verbatim>\<open>doSynchronise\<close>:
  \<^verbatim>\<open>DownloaderStartEvent\<close> was fired, then \<^verbatim>\<open>DownloaderDoneEvent\<close> or
  \<^verbatim>\<open>DownloaderFailedEvent\<close>.
\<close>

theorem Synchronise_early_no_events:
  "((syncStatus d \<noteq> statusNone \<or> map_of (peers d) pid = None) \<longrightarrow>
      (\<exists>e d'. Synchronise d chn pid head td localTD script join = Some (Some e, d')
         \<and> (e = errIsSynchronising \<or> e = errPeerNotFound) \<and> fired d' = fired d))
   \<and> (syncStatus d = statusNone \<and> map_of (peers d) pid = Some conn
        \<and> Synchronise d chn pid head td localTD script join = Some (r, d'')
      \<longrightarrow> fired d'' =
            fired d @ [DownloaderStartEvent,
                       if r = None then DownloaderDoneEvent else DownloaderFailedEvent])"
proof (intro conjI impI)
  assume "syncStatus d \<noteq> statusNone \<or> map_of (peers d) pid = None"
  then show "\<exists>e d'. Synchronise d chn pid head td localTD script join = Some (Some e, d')
         \<and> (e = errIsSynchronising \<or> e = errPeerNotFound) \<and> fired d' = fired d"
    by (auto simp: Synchronise_def)
next
  assume a: "syncStatus d = statusNone \<and> map_of (peers d) pid = Some conn
        \<and> Synchronise d chn pid head td localTD script join = Some (r, d'')"
  let ?d1 = "d\<lparr>syncStatus := statusPreparing, cancelCh := Some ChOpen, masterPeer := pid\<rparr>"
  from a obtain d2 where run: "doSynchronise ?d1 chn conn head td localTD script join = Some (r, d2)"
    and d'': "d'' = d2\<lparr>syncStatus := statusNone, sessionWG := 0, cancelCh := None\<rparr>"
    by (auto simp: Synchronise_def split: option.splits)
  from doSynchronise_fired[OF run] d''
  show "fired d'' =
            fired d @ [DownloaderStartEvent,
                       if r = None then DownloaderDoneEvent else DownloaderFailedEvent]"
    by simp
qed

text \<open>
  On the concrete downloader: the two early failures leave the list of events empty, the
  session with the master \<open>''m''\<close> fires start and done.
\<close>

theorem Synchronise_early_no_events_witness:
  "fired (snd (the (Synchronise (exDownloader\<lparr>syncStatus := statusCleaning\<rparr>) exChain ''m''
                      107 50 10 exScript exJoin))) = []
   \<and> fired (snd (the (Synchronise exDownloader exChain ''z'' 107 50 10 exScript exJoin))) = []
   \<and> fired (snd (the (Synchronise exDownloader exChain ''m'' 107 50 10 exScript exJoin)))
       = [DownloaderStartEvent, DownloaderDoneEvent]"
proof -
  let ?busy = "exDownloader\<lparr>syncStatus := statusCleaning\<rparr>"
  have "syncStatus ?busy \<noteq> statusNone \<or> map_of (peers ?busy) ''m'' = None" by simp
  with Synchronise_early_no_events[of ?busy "''m''" exChain 107 50 10 exScript exJoin]
  have a: "fired (snd (the (Synchronise ?busy exChain ''m'' 107 50 10 exScript exJoin))) = []"
    by (auto simp: ex_fired)
  have "syncStatus exDownloader \<noteq> statusNone \<or> map_of (peers exDownloader) ''z'' = None"
    by (simp add: ex_peers)
  with Synchronise_early_no_events[of exDownloader "''z''" exChain 107 50 10 exScript exJoin]
  have b: "fired (snd (the (Synchronise exDownloader exChain ''z'' 107 50 10 exScript exJoin))) = []"
    by (auto simp: ex_fired)
  have run: "Synchronise exDownloader exChain ''m'' 107 50 10 exScript exJoin
      = Some (None, snd (the (Synchronise exDownloader exChain ''m'' 107 50 10 exScript exJoin)))"
    by (simp add: Synchronise_def doSynchronise_def ex_status ex_peers ex_fetch ex_height ex_walk
        exJoin_def isDone_def closeTm_def deferred_eq Let_def list_all_iff)
  have "syncStatus exDownloader = statusNone
      \<and> map_of (peers exDownloader) ''m'' = Some (newPeerConn exPeer ''m'')"
    by (simp add: ex_status ex_peers)
  with Synchronise_early_no_events[of exDownloader "''m''" exChain 107 50 10 exScript exJoin
      "newPeerConn exPeer ''m''" None
      "snd (the (Synchronise exDownloader exChain ''m'' 107 50 10 exScript exJoin))"] run
  have c: "fired (snd (the (Synchronise exDownloader exChain ''m'' 107 50 10 exScript exJoin)))
      = [DownloaderStartEvent, DownloaderDoneEvent]"
    by (simp add: ex_fired)
  from a b c show ?thesis by blast
qed

subsection \<open>The peer table\<close>

text \<open>
  C8 (as amended). For every peer table and every identifier that is not in it,
  \<^verbatim>\<open>RegisterPeer\<close> followed by \<^verbatim>\<open>UnRegisterPeer\<close> of that identifier leaves the table as it
  was.
\<close>

theorem register_unregister:
  "map_of (peers d) pid = None \<Longrightarrow> peers (UnRegisterPeer (RegisterPeer d pid p) pid) = peers d"
  by (simp add: UnRegisterPeer_def RegisterPeer_def Let_def spawn_def update_conv'
      delete_update_same map_of_eq_None_iff)

theorem register_unregister_witness:
  "map_of (peers exDownloader) ''z'' = None
   \<and> peers (UnRegisterPeer (RegisterPeer exDownloader ''z'' exPeer) ''z'') = peers exDownloader"
proof -
  have fresh: "map_of (peers exDownloader) ''z'' = None"
    by (simp add: ex_peers)
  from register_unregister[OF fresh, of exPeer] fresh show ?thesis by simp
qed

text \<open>
  C8 as it is stated fails for an identifier that is in the table: registering \<open>''m''\<close>
  again replaces its entry, and unregistering removes it.
\<close>

theorem register_unregister_counterexample:
  "peers (UnRegisterPeer (RegisterPeer exDownloader ''m'' exPeer) ''m'')
     = [(''q'', newPeerConn exWeakPeer ''q'')]
   \<and> peers exDownloader = [(''m'', newPeerConn exPeer ''m''), (''q'', newPeerConn exWeakPeer ''q'')]
   \<and> peers (UnRegisterPeer (RegisterPeer exDownloader ''m'' exPeer) ''m'') \<noteq> peers exDownloader"
  by (simp add: UnRegisterPeer_def RegisterPeer_def Let_def ex_peers ex_status)

subsection \<open>The ancestor search\<close>

lemma fetchCountOf_min: "fetchCountOf mfa c = min MaxHeaderFetch (mfa - c)"
  by (simp add: fetchCountOf_def min_def)

lemma fetchCountOf_zero: "fetchCountOf mfa c = 0 \<longleftrightarrow> mfa = c"
  by (auto simp: fetchCountOf_def MaxHeaderFetch_def)

lemma topHeight_min: "topHeight a b = min a b"
  by (simp add: topHeight_def min_def)

lemma maxFetchAncestryOf_min: "maxFetchAncestryOf t = min MaxForkAncestry (uint t + 1)"
proof (cases "word_of_int MaxForkAncestry \<le> t")
  case True
  then have "90000 \<le> uint t"
    by (simp add: MaxForkAncestry_def word_le_def)
  with True show ?thesis
    by (simp add: maxFetchAncestryOf_def MaxForkAncestry_def)
next
  case False
  then have lt: "uint t < 90000"
    by (simp add: MaxForkAncestry_def word_le_def)
  have "- (2 ^ 63) \<le> (0::int)" by simp
  also have "0 \<le> uint t" by simp
  finally have lo: "- (2 ^ 63) \<le> uint t" .
  from lt have hi: "uint t < 2 ^ 63" by simp
  have "signed_take_bit 63 (uint t) = uint t"
    by (rule signed_take_bit_int_eq_self[OF lo hi])
  then have "sint t = uint t"
    by (simp add: sint_uint)
  with False lt show ?thesis
    by (simp add: maxFetchAncestryOf_def MaxForkAncestry_def)
qed

lemma ancestorLoop_requests:
  "i < length (snd (ancestorLoop chn topH mfa cmp script)) \<Longrightarrow>
   snd (ancestorLoop chn topH mfa cmp script) ! i =
     headersRequest topH mfa (cmp + int (length (headersOf (take i script))))"
proof (induction script arbitrary: cmp i)
  case Nil
  then show ?case by (simp split: if_splits)
next
  case (Cons r rest)
  show ?case
  proof (cases i)
    case 0
    then show ?thesis
      using Cons.prems by (auto split: if_splits reply.splits option.splits prod.splits)
  next
    case (Suc j)
    then show ?thesis
      using Cons.prems Cons.IH[of j "cmp + int (length (case r of Payload hs \<Rightarrow> hs | _ \<Rightarrow> []))"]
      by (auto simp: add.assoc split: if_splits reply.splits option.splits prod.splits)
  qed
qed

lemma compareHeaders_None: "compareHeaders chn hs = None \<longleftrightarrow> list_all (differs chn) hs"
  by (induction hs) (auto simp: differs_def Let_def split: sum.splits)

lemma compareHeaders_found:
  "compareHeaders chn hs = Some (Inr a) \<Longrightarrow>
   \<exists>pre h post. hs = pre @ h # post \<and> Height h = a \<and> GetBlockHash chn a = Inr (Hash h)
      \<and> list_all (differs chn) pre"
proof (induction hs)
  case Nil
  then show ?case by simp
next
  case (Cons g gs)
  show ?case
  proof (cases "GetBlockHash chn (Height g) = Inr (Hash g)")
    case True
    with Cons.prems have "Height g = a" by (simp add: Let_def)
    with True have "g # gs = [] @ g # gs \<and> Height g = a \<and> GetBlockHash chn a = Inr (Hash g)
        \<and> list_all (differs chn) []"
      by simp
    then show ?thesis by blast
  next
    case False
    with Cons.prems have d: "differs chn g" and r: "compareHeaders chn gs = Some (Inr a)"
      by (auto simp: differs_def Let_def split: sum.splits if_splits)
    from Cons.IH[OF r] obtain pre h post where
      "gs = pre @ h # post" "Height h = a" "GetBlockHash chn a = Inr (Hash h)"
      "list_all (differs chn) pre"
      by blast
    with d have "g # gs = (g # pre) @ h # post \<and> Height h = a \<and> GetBlockHash chn a = Inr (Hash h)
        \<and> list_all (differs chn) (g # pre)"
      by simp
    then show ?thesis by blast
  qed
qed

lemma compareHeaders_error:
  "list_all (differs chn) hs \<Longrightarrow> GetBlockHash chn (Height h) = Inl e \<Longrightarrow>
   compareHeaders chn (hs @ h # hs') = Some (Inl e)"
  by (induction hs) (auto simp: differs_def Let_def split: sum.splits)

lemma compareHeaders_error_source:
  "compareHeaders chn hs = Some (Inl e) \<Longrightarrow> \<exists>h \<in> set hs. GetBlockHash chn (Height h) = Inl e"
  by (induction hs) (auto simp: Let_def split: sum.splits if_splits)

lemma ancestorLoop_found:
  "fst (ancestorLoop chn topH mfa cmp script) = Some (Inr a) \<Longrightarrow>
   \<exists>pre h post. headersOf script = pre @ h # post \<and> Height h = a
      \<and> GetBlockHash chn a = Inr (Hash h) \<and> list_all (differs chn) pre"
proof (induction script arbitrary: cmp)
  case Nil
  then show ?case by (simp split: if_splits)
next
  case (Cons r rest)
  from Cons.prems obtain hs where r: "r = Payload hs" and ne: "hs \<noteq> []"
    by (auto split: if_splits reply.splits)
  show ?case
  proof (cases "compareHeaders chn hs")
    case None
    with Cons.prems r ne have "fst (ancestorLoop chn topH mfa (cmp + int (length hs)) rest) = Some (Inr a)"
      by (auto split: if_splits prod.splits)
    from Cons.IH[OF this] obtain pre h post where
      "headersOf rest = pre @ h # post" "Height h = a" "GetBlockHash chn a = Inr (Hash h)"
      "list_all (differs chn) pre"
      by blast
    moreover from None have "list_all (differs chn) hs"
      by (simp add: compareHeaders_None)
    ultimately have "headersOf (r # rest) = (hs @ pre) @ h # post \<and> Height h = a
        \<and> GetBlockHash chn a = Inr (Hash h) \<and> list_all (differs chn) (hs @ pre)"
      using r by simp
    then show ?thesis by blast
  next
    case (Some res)
    with Cons.prems r ne have "compareHeaders chn hs = Some (Inr a)"
      by (auto split: if_splits)
    from compareHeaders_found[OF this] obtain pre h post where
      "hs = pre @ h # post" "Height h = a" "GetBlockHash chn a = Inr (Hash h)"
      "list_all (differs chn) pre"
      by blast
    then have "headersOf (r # rest) = pre @ h # (post @ headersOf rest) \<and> Height h = a
        \<and> GetBlockHash chn a = Inr (Hash h) \<and> list_all (differs chn) pre"
      using r by simp
    then show ?thesis by blast
  qed
qed

lemma ancestorLoop_empty_batch:
  "fst (ancestorLoop chn topH mfa cmp pre) = None \<Longrightarrow>
   fst (ancestorLoop chn topH mfa cmp (pre @ Payload [] # post)) = Some (Inl errInvalidAncestor)"
  by (induction pre arbitrary: cmp)
    (auto simp: split_beta split: if_splits reply.splits option.splits)

lemma ancestorLoop_store_error:
  "fst (ancestorLoop chn topH mfa cmp pre) = None \<Longrightarrow> list_all (differs chn) hs \<Longrightarrow>
   GetBlockHash chn (Height h) = Inl e \<Longrightarrow>
   fst (ancestorLoop chn topH mfa cmp (pre @ Payload (hs @ h # hs') # post)) = Some (Inl e)"
  by (induction pre arbitrary: cmp)
    (auto simp: compareHeaders_error split_beta split: if_splits reply.splits option.splits)

lemma ancestorLoop_too_deep:
  "unmatched chn script \<Longrightarrow> int (length (headersOf script)) = mfa - cmp \<Longrightarrow>
   fst (ancestorLoop chn topH mfa cmp script) = Some (Inl errMaxForkAncestor)"
proof (induction script arbitrary: cmp)
  case Nil
  then show ?case by (simp add: fetchCountOf_zero)
next
  case (Cons r rest)
  from Cons.prems(1) obtain hs where r: "r = Payload hs" and ne: "hs \<noteq> []"
    and nm: "list_all (differs chn) hs" and um: "unmatched chn rest"
    by (cases r) auto
  from Cons.prems(2) r have len: "int (length (headersOf rest)) = mfa - (cmp + int (length hs))"
    by simp
  from ne have pos: "0 < int (length hs)" by simp
  from Cons.prems(2) r have "int (length hs) + int (length (headersOf rest)) = mfa - cmp"
    by simp
  with pos have "mfa \<noteq> cmp" by linarith
  moreover from nm have "compareHeaders chn hs = None" by (simp add: compareHeaders_None)
  ultimately show ?case
    using Cons.IH[OF um len] r ne by (simp add: fetchCountOf_zero split_beta)
qed

lemma ancestorLoop_errors:
  "fst (ancestorLoop chn topH mfa cmp script) = Some (Inl e) \<Longrightarrow>
   e = errInvalidAncestor \<or> e = errMaxForkAncestor \<or> e \<in> replyErrors script
     \<or> (\<exists>h \<in> set (headersOf script). GetBlockHash chn (Height h) = Inl e)"
proof (induction script arbitrary: cmp)
  case Nil
  then show ?case by (simp split: if_splits)
next
  case (Cons r rest)
  show ?case
  proof (cases r)
    case (WaitFailed x)
    with Cons.prems show ?thesis by (auto split: if_splits)
  next
    case (Undecodable x)
    with Cons.prems show ?thesis by (auto split: if_splits)
  next
    case (Payload hs)
    show ?thesis
    proof (cases "compareHeaders chn hs")
      case None
      with Cons.prems Payload
      have "e = errMaxForkAncestor \<or> e = errInvalidAncestor
          \<or> fst (ancestorLoop chn topH mfa (cmp + int (length hs)) rest) = Some (Inl e)"
        by (auto split: if_splits prod.splits)
      with Cons.IH[of "cmp + int (length hs)"] Payload show ?thesis by auto
    next
      case (Some res)
      with Cons.prems Payload
      have "e = errMaxForkAncestor \<or> e = errInvalidAncestor \<or> compareHeaders chn hs = Some (Inl e)"
        by (auto split: if_splits)
      with compareHeaders_error_source[of chn hs e] Payload show ?thesis by auto
    qed
  qed
qed


lemma findCommonAncestorHeight_top:
  "topHeight (currentHeight chn) height \<noteq> 0 \<Longrightarrow>
   findCommonAncestorHeight chn height script =
     ancestorLoop chn (topHeight (currentHeight chn) height)
       (maxFetchAncestryOf (topHeight (currentHeight chn) height)) 0 script"
  by (simp add: findCommonAncestorHeight_def Let_def)

lemma findCommonAncestorHeight_zero:
  "topHeight (currentHeight chn) height = 0 \<Longrightarrow>
   findCommonAncestorHeight chn height script = (Some (Inr 0), [])"
  by (simp add: findCommonAncestorHeight_def Let_def)

text \<open>
  What the search does whatever the peer sends. It takes \<open>topH\<close>, the smaller of the
  local height and the height given. If \<open>topH\<close> is 0 it returns the ancestor 0 and sends
  no request. Otherwise \<^verbatim>\<open>maxFetchAncestry\<close> is the smaller of \<^verbatim>\<open>MaxForkAncestry\<close> and
  \<open>topH + 1\<close>; every request is a reverse request by number for the count
  \<^verbatim>\<open>fetchCount\<close>, starting at \<open>topH - uint64(cmpCount)\<close>, which wraps around; and a
  height returned is that of the first header, in the order of arrival, whose hash is the
  local hash at its height, every header before it having a local hash that differs.
\<close>

lemma findCommonAncestorHeight_walk:
  assumes "topH = topHeight (currentHeight chn) height"
    and "mfa = maxFetchAncestryOf topH"
    and "findCommonAncestorHeight chn height script = (res, reqs)"
  shows "topH = min (currentHeight chn) height
    \<and> (topH = 0 \<longrightarrow> res = Some (Inr 0) \<and> reqs = [])
    \<and> mfa = min MaxForkAncestry (uint topH + 1)
    \<and> (\<forall>i < length reqs. reqs ! i =
          \<lparr>reqHash = EmptyHash,
           reqStart = topH - word_of_nat (length (headersOf (take i script))),
           reqCount = min MaxHeaderFetch (mfa - int (length (headersOf (take i script)))),
           reqReverse = True\<rparr>)
    \<and> (\<forall>a. topH \<noteq> 0 \<and> res = Some (Inr a) \<longrightarrow>
          (\<exists>pre h post. headersOf script = pre @ h # post \<and> Height h = a
             \<and> GetBlockHash chn a = Inr (Hash h) \<and> list_all (differs chn) pre))"
proof (intro conjI allI impI)
  show "topH = min (currentHeight chn) height"
    using assms(1) by (simp add: topHeight_min)
  show "mfa = min MaxForkAncestry (uint topH + 1)"
    using assms(2) by (simp add: maxFetchAncestryOf_min)
next
  assume "topH = 0"
  with assms(1,3) findCommonAncestorHeight_zero[of chn height script]
  show "res = Some (Inr 0)" and "reqs = []" by simp_all
next
  fix i assume i: "i < length reqs"
  then have "reqs \<noteq> []" by auto
  with assms(1,3) findCommonAncestorHeight_zero[of chn height script]
  have nz: "topHeight (currentHeight chn) height \<noteq> 0" by auto
  from findCommonAncestorHeight_top[OF nz, of script] assms
  have loop: "ancestorLoop chn topH mfa 0 script = (res, reqs)" by simp
  with i ancestorLoop_requests[of i chn topH mfa 0 script]
  have "reqs ! i = headersRequest topH mfa (int (length (headersOf (take i script))))"
    by simp
  then show "reqs ! i =
          \<lparr>reqHash = EmptyHash,
           reqStart = topH - word_of_nat (length (headersOf (take i script))),
           reqCount = min MaxHeaderFetch (mfa - int (length (headersOf (take i script)))),
           reqReverse = True\<rparr>"
    by (simp add: headersRequest_def fetchCountOf_min)
next
  fix a assume a: "topH \<noteq> 0 \<and> res = Some (Inr a)"
  with assms(1) have nz: "topHeight (currentHeight chn) height \<noteq> 0" by simp
  from findCommonAncestorHeight_top[OF nz, of script] assms
  have "ancestorLoop chn topH mfa 0 script = (res, reqs)" by simp
  with a have "fst (ancestorLoop chn topH mfa 0 script) = Some (Inr a)" by simp
  then show "\<exists>pre h post. headersOf script = pre @ h # post \<and> Height h = a
             \<and> GetBlockHash chn a = Inr (Hash h) \<and> list_all (differs chn) pre"
    by (rule ancestorLoop_found)
qed

lemma ex_top: "topHeight (currentHeight exChain) 7 = 5"
  by (simp add: topHeight_def exChain_def)

lemma ex_mfa: "maxFetchAncestryOf 5 = 6"
  by (simp add: maxFetchAncestryOf_def MaxForkAncestry_def)

text \<open>
  On the concrete chain: \<open>topH\<close> is 5, one request for 6 headers from height 5 down is
  sent, and the ancestor is the height 4 of the second header received.
\<close>

lemma findCommonAncestorHeight_walk_example:
  "(5 :: 64 word) = topHeight (currentHeight exChain) 7
   \<and> (6 :: int) = maxFetchAncestryOf 5
   \<and> findCommonAncestorHeight exChain 7 (tl exScript) =
       (Some (Inr 4), [\<lparr>reqHash = EmptyHash, reqStart = 5, reqCount = 6, reqReverse = True\<rparr>])
   \<and> (5 :: 64 word) = min (currentHeight exChain) 7
   \<and> (6 :: int) = min MaxForkAncestry (uint (5 :: 64 word) + 1)
   \<and> (\<exists>pre h post. headersOf (tl exScript) = pre @ h # post \<and> Height h = 4
         \<and> GetBlockHash exChain 4 = Inr (Hash h) \<and> list_all (differs exChain) pre)"
proof -
  have h1: "(5 :: 64 word) = topHeight (currentHeight exChain) 7"
    by (simp add: ex_top)
  have h2: "(6 :: int) = maxFetchAncestryOf 5"
    by (simp add: ex_mfa)
  note h3 = ex_walk
  from findCommonAncestorHeight_walk[OF h1 h2 h3] h1 h2 h3 show ?thesis
    by (simp add: MaxForkAncestry_def)
qed

text \<open>
  As long as fewer than \<^verbatim>\<open>maxFetchAncestry\<close> headers have arrived and none has matched,
  the search is still running, it has sent one request more than it has read replies, and
  each request goes downward from \<open>topH\<close> without wrapping: it starts at \<open>topH\<close> less
  the number of headers received before it and asks for at least 1 and at most
  \<^verbatim>\<open>MaxHeaderFetch\<close> headers.
\<close>

lemma length_headersOf_take: "length (headersOf (take i rs)) \<le> length (headersOf rs)"
proof (induction rs arbitrary: i)
  case Nil
  then show ?case by simp
next
  case (Cons r rs)
  show ?case
  proof (cases i)
    case 0
    then show ?thesis by simp
  next
    case (Suc j)
    with Cons.IH[of j] show ?thesis by (cases r) simp_all
  qed
qed

lemma ancestorLoop_running:
  "unmatched chn pre \<Longrightarrow> cmp + int (length (headersOf pre)) < mfa \<Longrightarrow>
   fst (ancestorLoop chn topH mfa cmp pre) = None
   \<and> length (snd (ancestorLoop chn topH mfa cmp pre)) = Suc (length pre)"
proof (induction pre arbitrary: cmp)
  case Nil
  then show ?case by (simp add: fetchCountOf_zero)
next
  case (Cons r rest)
  from Cons.prems(1) obtain hs where r: "r = Payload hs" and ne: "hs \<noteq> []"
    and nm: "list_all (differs chn) hs" and um: "unmatched chn rest"
    by (cases r) auto
  from Cons.prems(2) r
  have len: "(cmp + int (length hs)) + int (length (headersOf rest)) < mfa"
    by simp
  then have "mfa \<noteq> cmp" by linarith
  moreover from nm have "compareHeaders chn hs = None" by (simp add: compareHeaders_None)
  ultimately show ?case
    using Cons.IH[OF um len] r ne by (simp add: fetchCountOf_zero split_beta)
qed

lemma word_minus_of_nat:
  fixes w :: "64 word"
  assumes "n \<le> unat w"
  shows "w - word_of_int (int n) = word_of_nat (unat w - n)"
proof -
  have "word_of_nat (unat w - n) = (word_of_nat (unat w) :: 64 word) - word_of_nat n"
    using assms by (rule of_nat_diff)
  then show ?thesis by simp
qed

lemma ancestor_walk_downward:
  assumes "topH = topHeight (currentHeight chn) height" and "topH \<noteq> 0"
    and "unmatched chn pre"
    and "int (length (headersOf pre)) < maxFetchAncestryOf topH"
    and "findCommonAncestorHeight chn height pre = (res, reqs)"
  shows "res = None \<and> length reqs = Suc (length pre)
    \<and> (\<forall>i \<le> length pre.
          length (headersOf (take i pre)) \<le> unat topH
          \<and> reqs ! i =
              \<lparr>reqHash = EmptyHash,
               reqStart = word_of_nat (unat topH - length (headersOf (take i pre))),
               reqCount = min MaxHeaderFetch
                 (maxFetchAncestryOf topH - int (length (headersOf (take i pre)))),
               reqReverse = True\<rparr>
          \<and> 0 < reqCount (reqs ! i) \<and> reqCount (reqs ! i) \<le> MaxHeaderFetch)"
proof -
  let ?mfa = "maxFetchAncestryOf topH"
  from assms(1,2) have nz: "topHeight (currentHeight chn) height \<noteq> 0" by simp
  from findCommonAncestorHeight_top[OF nz, of pre] assms(1,5)
  have loop: "ancestorLoop chn topH ?mfa 0 pre = (res, reqs)" by simp
  from ancestorLoop_running[OF assms(3), of 0 ?mfa topH] assms(4) loop
  have run: "res = None" and len: "length reqs = Suc (length pre)" by simp_all
  have each: "length (headersOf (take i pre)) \<le> unat topH
          \<and> reqs ! i =
              \<lparr>reqHash = EmptyHash,
               reqStart = word_of_nat (unat topH - length (headersOf (take i pre))),
               reqCount = min MaxHeaderFetch (?mfa - int (length (headersOf (take i pre)))),
               reqReverse = True\<rparr>
          \<and> 0 < reqCount (reqs ! i) \<and> reqCount (reqs ! i) \<le> MaxHeaderFetch"
    if i: "i \<le> length pre" for i
  proof -
    let ?n = "length (headersOf (take i pre))"
    have "int ?n \<le> int (length (headersOf pre))"
      using length_headersOf_take[of i pre] by simp
    with assms(4) have lt: "int ?n < ?mfa" by linarith
    have "?mfa \<le> uint topH + 1"
      by (simp add: maxFetchAncestryOf_min)
    with lt have "int ?n \<le> uint topH" by linarith
    from nat_mono[OF this] have below: "?n \<le> unat topH"
      by (simp only: nat_int unat_eq_nat_uint)
    from i len have "i < length (snd (ancestorLoop chn topH ?mfa 0 pre))"
      using loop by simp
    from ancestorLoop_requests[OF this] loop
    have "reqs ! i = headersRequest topH ?mfa (int ?n)" by simp
    then have r: "reqs ! i = \<lparr>reqHash = EmptyHash, reqStart = topH - word_of_int (int ?n),
        reqCount = min MaxHeaderFetch (?mfa - int ?n), reqReverse = True\<rparr>"
      by (simp only: headersRequest_def fetchCountOf_min)
    have st: "topH - word_of_int (int ?n) = word_of_nat (unat topH - ?n)"
      using below by (rule word_minus_of_nat)
    have cnt: "0 < min MaxHeaderFetch (?mfa - int ?n)" "min MaxHeaderFetch (?mfa - int ?n) \<le> MaxHeaderFetch"
      using lt by (simp_all add: MaxHeaderFetch_def)
    from r st cnt below show ?thesis
      by (simp only: request.simps simp_thms)
  qed
  from each have "\<forall>i \<le> length pre.
          length (headersOf (take i pre)) \<le> unat topH
          \<and> reqs ! i =
              \<lparr>reqHash = EmptyHash,
               reqStart = word_of_nat (unat topH - length (headersOf (take i pre))),
               reqCount = min MaxHeaderFetch
                 (maxFetchAncestryOf topH - int (length (headersOf (take i pre)))),
               reqReverse = True\<rparr>
          \<and> 0 < reqCount (reqs ! i) \<and> reqCount (reqs ! i) \<le> MaxHeaderFetch"
    by (intro allI impI)
  with run len show ?thesis by (intro conjI)
qed

text \<open>
  While the search is running, a reply in which a header has the local hash of its
  height, the headers before it in that reply having local hashes that differ, makes it
  return the height of that header.
\<close>

lemma compareHeaders_match:
  "list_all (differs chn) hs \<Longrightarrow> GetBlockHash chn (Height h) = Inr (Hash h) \<Longrightarrow>
   compareHeaders chn (hs @ h # hs') = Some (Inr (Height h))"
  by (induction hs) (auto simp: differs_def Let_def split: sum.splits)

lemma ancestorLoop_match:
  "fst (ancestorLoop chn topH mfa cmp pre) = None \<Longrightarrow> list_all (differs chn) hs \<Longrightarrow>
   GetBlockHash chn (Height h) = Inr (Hash h) \<Longrightarrow>
   fst (ancestorLoop chn topH mfa cmp (pre @ Payload (hs @ h # hs') # post))
     = Some (Inr (Height h))"
  by (induction pre arbitrary: cmp)
    (auto simp: compareHeaders_match split_beta split: if_splits reply.splits option.splits)

lemma ancestor_walk_finds:
  assumes "fst (findCommonAncestorHeight chn height pre) = None"
    and "list_all (differs chn) hs"
    and "GetBlockHash chn (Height h) = Inr (Hash h)"
  shows "fst (findCommonAncestorHeight chn height (pre @ Payload (hs @ h # hs') # post))
     = Some (Inr (Height h))"
proof -
  from assms(1) have nz: "topHeight (currentHeight chn) height \<noteq> 0"
    using findCommonAncestorHeight_zero[of chn height pre] by auto
  from assms show ?thesis
    by (simp add: findCommonAncestorHeight_top[OF nz] ancestorLoop_match)
qed

text \<open>
  C4 (as amended). A reply with no header, read while the search is still running, makes
  it fail with \<^verbatim>\<open>errInvalidAncestor\<close>. If the replies hold \<^verbatim>\<open>maxFetchAncestry\<close> headers in
  all, each reply at least one, and none matches, the search fails with
  \<^verbatim>\<open>errMaxForkAncestor\<close>. Every error of the search is one of these two, an error carried
  by a reply (the wait or the decoding failed), or the error the store returned for the
  height of a header received.
\<close>

theorem ancestor_walk_failures:
  "(fst (findCommonAncestorHeight chn height pre) = None \<longrightarrow>
      fst (findCommonAncestorHeight chn height (pre @ Payload [] # post))
        = Some (Inl errInvalidAncestor))
   \<and> (topHeight (currentHeight chn) height \<noteq> 0 \<and> unmatched chn script
        \<and> int (length (headersOf script))
            = maxFetchAncestryOf (topHeight (currentHeight chn) height)
      \<longrightarrow> fst (findCommonAncestorHeight chn height script) = Some (Inl errMaxForkAncestor))
   \<and> (fst (findCommonAncestorHeight chn height script) = Some (Inl e) \<longrightarrow>
        e = errInvalidAncestor \<or> e = errMaxForkAncestor \<or> e \<in> replyErrors script
          \<or> (\<exists>h \<in> set (headersOf script). GetBlockHash chn (Height h) = Inl e))"
proof (intro conjI impI)
  assume a: "fst (findCommonAncestorHeight chn height pre) = None"
  then have nz: "topHeight (currentHeight chn) height \<noteq> 0"
    using findCommonAncestorHeight_zero[of chn height pre] by auto
  from a show "fst (findCommonAncestorHeight chn height (pre @ Payload [] # post))
        = Some (Inl errInvalidAncestor)"
    by (simp add: findCommonAncestorHeight_top[OF nz] ancestorLoop_empty_batch)
next
  assume a: "topHeight (currentHeight chn) height \<noteq> 0 \<and> unmatched chn script
        \<and> int (length (headersOf script))
            = maxFetchAncestryOf (topHeight (currentHeight chn) height)"
  then show "fst (findCommonAncestorHeight chn height script) = Some (Inl errMaxForkAncestor)"
    by (simp add: findCommonAncestorHeight_top ancestorLoop_too_deep)
next
  assume a: "fst (findCommonAncestorHeight chn height script) = Some (Inl e)"
  then have nz: "topHeight (currentHeight chn) height \<noteq> 0"
    using findCommonAncestorHeight_zero[of chn height script] by auto
  from a show "e = errInvalidAncestor \<or> e = errMaxForkAncestor \<or> e \<in> replyErrors script
          \<or> (\<exists>h \<in> set (headersOf script). GetBlockHash chn (Height h) = Inl e)"
    by (simp only: findCommonAncestorHeight_top[OF nz]) (rule ancestorLoop_errors)
qed

lemma ex_eval:
  "findCommonAncestorHeight exChain 7 script = ancestorLoop exChain 5 6 0 script"
  by (simp add: findCommonAncestorHeight_top ex_top ex_mfa)

lemma ex_differs: "differs exChain (mkHeader n dg) = (n \<le> 5 \<and> dg \<noteq> 100 + unat n)"
  by (auto simp add: differs_def exChain_def mkHeader_def Hash_def)

text \<open>
  On the concrete chain: an empty second reply, six headers without a match, and a wait
  that fails.
\<close>

theorem ancestor_walk_failures_witness:
  "fst (findCommonAncestorHeight exChain 7 [Payload [mkHeader 5 999]]) = None
   \<and> fst (findCommonAncestorHeight exChain 7 ([Payload [mkHeader 5 999]] @ Payload [] # []))
       = Some (Inl errInvalidAncestor)
   \<and> topHeight (currentHeight exChain) 7 \<noteq> 0
   \<and> unmatched exChain exDeep
   \<and> int (length (headersOf exDeep)) = maxFetchAncestryOf (topHeight (currentHeight exChain) 7)
   \<and> fst (findCommonAncestorHeight exChain 7 exDeep) = Some (Inl errMaxForkAncestor)
   \<and> fst (findCommonAncestorHeight exChain 7 [WaitFailed (External ''cancelled'')])
       = Some (Inl (External ''cancelled''))
   \<and> External ''cancelled'' \<in> replyErrors [WaitFailed (External ''cancelled'') :: BlockHeader list reply]"
proof -
  have a: "fst (findCommonAncestorHeight exChain 7 [Payload [mkHeader 5 999]]) = None"
    by (subst ex_eval)
      (simp add: fetchCountOf_def MaxHeaderFetch_def exChain_def mkHeader_def Hash_def Let_def)
  have b1: "topHeight (currentHeight exChain) 7 \<noteq> 0"
    by (simp add: ex_top)
  have b2: "unmatched exChain exDeep"
    by (simp add: exDeep_def ex_differs)
  have b3: "int (length (headersOf exDeep)) = maxFetchAncestryOf (topHeight (currentHeight exChain) 7)"
    by (simp add: exDeep_def ex_top ex_mfa)
  have c: "fst (findCommonAncestorHeight exChain 7 [WaitFailed (External ''cancelled'')])
       = Some (Inl (External ''cancelled''))"
    by (simp add: ex_eval fetchCountOf_def MaxHeaderFetch_def)
  from ancestor_walk_failures[of exChain 7 "[Payload [mkHeader 5 999]]" "[]" exDeep
      "External ''cancelled''"] a b1 b2 b3
  have "fst (findCommonAncestorHeight exChain 7 ([Payload [mkHeader 5 999]] @ Payload [] # []))
       = Some (Inl errInvalidAncestor)"
    and "fst (findCommonAncestorHeight exChain 7 exDeep) = Some (Inl errMaxForkAncestor)"
    by blast+
  with a b1 b2 b3 c show ?thesis by simp
qed

text \<open>
  C4 as it is stated fails: a header of height 9, which the local chain does not have,
  makes the search fail with the error of the store, which is neither of the two errors
  of the search nor carried by a reply.
\<close>

theorem ancestor_walk_failures_counterexample:
  "fst (findCommonAncestorHeight exChain 7 [Payload [mkHeader 9 1]])
     = Some (Inl (External ''not found''))
   \<and> External ''not found'' \<noteq> errInvalidAncestor
   \<and> External ''not found'' \<noteq> errMaxForkAncestor
   \<and> External ''not found'' \<notin> replyErrors [Payload [mkHeader 9 1]]"
  by (subst ex_eval)
    (simp add: fetchCountOf_def MaxHeaderFetch_def exChain_def mkHeader_def Hash_def Let_def)

text \<open>
  C3. The claim: the search takes \<open>topH\<close>, the smaller of the two heights, returns 0
  without a request if that is 0, and otherwise walks downward from \<open>topH\<close> in batches
  of at most \<^verbatim>\<open>MaxHeaderFetch\<close> headers, within \<^verbatim>\<open>maxFetchAncestry\<close>, to the first height
  at which the local hash is that of the header. The code does so as long as the peer
  sends no more headers than it was asked for (the lemmas above); it does not check that.
  Here \<open>topH\<close> is 5 and \<^verbatim>\<open>maxFetchAncestry\<close> is 6, and the first reply holds seven
  headers, none of them the local one: the count of headers compared becomes 7, the test
  \<^verbatim>\<open>fetchCount == 0\<close> sees \<open>- 1\<close> and does not end the search, and the next request
  asks for \<open>- 1\<close> headers from the height \<open>5 - 7\<close>, which has wrapped around to
  \<open>2^64 - 2\<close>, above \<open>topH\<close>.
\<close>

theorem ancestor_walk_over_delivery:
  "findCommonAncestorHeight exChain 7
     [Payload [mkHeader 5 999, mkHeader 4 998, mkHeader 3 997, mkHeader 2 996, mkHeader 1 995,
               mkHeader 0 994, mkHeader 0 993]]
   = (None,
      [\<lparr>reqHash = EmptyHash, reqStart = 5, reqCount = 6, reqReverse = True\<rparr>,
       \<lparr>reqHash = EmptyHash, reqStart = 18446744073709551614, reqCount = - 1, reqReverse = True\<rparr>])"
  by (subst ex_eval)
    (simp add: fetchCountOf_def MaxHeaderFetch_def exChain_def mkHeader_def Hash_def Let_def
      headersRequest_def)


lemma fetchHeight_first: "fetchHeight conn (r # rest) = fetchHeight conn [r]"
  by (simp add: fetchHeight_def)

lemma Synchronise_walk_error:
  assumes "syncStatus d = statusNone" and "map_of (peers d) pid = Some conn"
    and "fetchHeight conn script = Some (Inr latest)"
    and "fst (findCommonAncestorHeight chn (Height latest) (tl script)) = Some (Inl e)"
  shows "\<exists>d'. Synchronise d chn pid head td localTD script join = Some (Some e, d')
      \<and> syncStatus d' = statusNone
      \<and> fired d' = fired d @ [DownloaderStartEvent, DownloaderFailedEvent]
      \<and> spawned d' = spawned d"
  using assms
  by (simp add: Synchronise_def doSynchronise_def deferred_eq Fire_def Let_def)

text \<open>
  C10. While the search is running, a reply arrives in which a header has a height the
  store returns an error for, the headers before it in that reply having local hashes
  that differ. Then the search returns the error of the store, whatever follows that
  header; and the session ends with it: \<^verbatim>\<open>Synchronise\<close> returns that error, the failed
  event is fired after the start event, no worker is spawned and the status is
  \<^verbatim>\<open>statusNone\<close>.
\<close>

theorem ancestor_walk_store_error:
  assumes "syncStatus d = statusNone" and "map_of (peers d) pid = Some conn"
    and "fetchHeight conn [r0] = Some (Inr latest)"
    and "fst (findCommonAncestorHeight chn (Height latest) pre) = None"
    and "list_all (differs chn) hs"
    and "GetBlockHash chn (Height h) = Inl e"
  shows "fst (findCommonAncestorHeight chn (Height latest) (pre @ Payload (hs @ h # hs') # post))
      = Some (Inl e)
    \<and> (\<exists>d'. Synchronise d chn pid head td localTD (r0 # pre @ Payload (hs @ h # hs') # post) join
            = Some (Some e, d')
          \<and> syncStatus d' = statusNone
          \<and> fired d' = fired d @ [DownloaderStartEvent, DownloaderFailedEvent]
          \<and> spawned d' = spawned d)"
proof -
  from assms(4) have nz: "topHeight (currentHeight chn) (Height latest) \<noteq> 0"
    using findCommonAncestorHeight_zero[of chn "Height latest" pre] by auto
  from assms(4,5,6)
  have walk: "fst (findCommonAncestorHeight chn (Height latest) (pre @ Payload (hs @ h # hs') # post))
      = Some (Inl e)"
    by (simp add: findCommonAncestorHeight_top[OF nz] ancestorLoop_store_error)
  let ?script = "r0 # pre @ Payload (hs @ h # hs') # post"
  have "fetchHeight conn ?script = Some (Inr latest)"
    by (subst fetchHeight_first) (rule assms(3))
  moreover from walk have "fst (findCommonAncestorHeight chn (Height latest) (tl ?script)) = Some (Inl e)"
    by simp
  ultimately have "\<exists>d'. Synchronise d chn pid head td localTD ?script join = Some (Some e, d')
      \<and> syncStatus d' = statusNone
      \<and> fired d' = fired d @ [DownloaderStartEvent, DownloaderFailedEvent]
      \<and> spawned d' = spawned d"
    by (rule Synchronise_walk_error[OF assms(1,2)])
  with walk show ?thesis by (rule conjI)
qed

text \<open>
  On the concrete chain: the header of height 9 ends the session, though the header after
  it is the local one at height 4.
\<close>

theorem ancestor_walk_store_error_witness:
  "syncStatus exDownloader = statusNone
   \<and> map_of (peers exDownloader) ''m'' = Some (newPeerConn exPeer ''m'')
   \<and> fetchHeight (newPeerConn exPeer ''m'') [Payload [mkHeader 7 107]] = Some (Inr (mkHeader 7 107))
   \<and> fst (findCommonAncestorHeight exChain (Height (mkHeader 7 107)) []) = None
   \<and> list_all (differs exChain) [mkHeader 5 999]
   \<and> GetBlockHash exChain (Height (mkHeader 9 1)) = Inl (External ''not found'')
   \<and> fst (findCommonAncestorHeight exChain 7 (tl exAbove)) = Some (Inl (External ''not found''))
   \<and> fst (the (Synchronise exDownloader exChain ''m'' 107 50 10 exAbove exJoin))
        = Some (External ''not found'')
   \<and> syncStatus (snd (the (Synchronise exDownloader exChain ''m'' 107 50 10 exAbove exJoin)))
        = statusNone
   \<and> fired (snd (the (Synchronise exDownloader exChain ''m'' 107 50 10 exAbove exJoin)))
        = [DownloaderStartEvent, DownloaderFailedEvent]
   \<and> spawned (snd (the (Synchronise exDownloader exChain ''m'' 107 50 10 exAbove exJoin))) = []"
proof -
  have h1: "syncStatus exDownloader = statusNone" by (rule ex_status)
  have h2: "map_of (peers exDownloader) ''m'' = Some (newPeerConn exPeer ''m'')"
    by (simp add: ex_peers)
  have h3: "fetchHeight (newPeerConn exPeer ''m'') [Payload [mkHeader 7 107]]
      = Some (Inr (mkHeader 7 107))"
    by (simp add: fetchHeight_def newPeerConn_def exPeer_def Head_def Hash_def mkHeader_def)
  have h4: "fst (findCommonAncestorHeight exChain (Height (mkHeader 7 107)) []) = None"
    by (simp add: ex_height ex_eval fetchCountOf_def MaxHeaderFetch_def)
  have h5: "list_all (differs exChain) [mkHeader 5 999]"
    by (simp add: ex_differs)
  have h6: "GetBlockHash exChain (Height (mkHeader 9 1)) = Inl (External ''not found'')"
    by (simp add: exChain_def mkHeader_def)
  from ancestor_walk_store_error[OF h1 h2 h3 h4 h5 h6, of "[mkHeader 4 104]" "[]" 107 50 10 exJoin]
  obtain d' where
    "fst (findCommonAncestorHeight exChain 7 (tl exAbove)) = Some (Inl (External ''not found''))"
    "Synchronise exDownloader exChain ''m'' 107 50 10 exAbove exJoin
       = Some (Some (External ''not found''), d')"
    "syncStatus d' = statusNone"
    "fired d' = [DownloaderStartEvent, DownloaderFailedEvent]"
    "spawned d' = []"
    by (auto simp: exAbove_def ex_height ex_fired ex_spawned)
  with h1 h2 h3 h4 h5 h6 show ?thesis by simp
qed

subsection \<open>The workers spawned\<close>

lemma spawnWorkers_spawned:
  "spawned (spawnWorkers l ps d) =
     spawned d @ map snd (filter (\<lambda>kc. l < snd (Head (peer (snd kc)))) ps)"
  by (induction ps arbitrary: d) (simp_all add: Let_def spawn_def not_le)

lemma wellKeyed_Cons:
  "wellKeyed (kc # ps) \<longleftrightarrow> fst kc \<notin> fst ` set ps \<and> peerID (snd kc) = fst kc \<and> wellKeyed ps"
  by (auto simp: wellKeyed_def)

lemma absent_not_counted:
  "wellKeyed ps \<Longrightarrow> k \<notin> fst ` set ps \<Longrightarrow>
   filter (\<lambda>kc. P kc \<and> peerID (snd kc) = k) ps = []"
  by (induction ps) (auto simp: wellKeyed_Cons)

lemma count_eligible:
  "wellKeyed ps \<Longrightarrow>
   length (filter (\<lambda>c. peerID c = k) (map snd (filter (\<lambda>kc. l < snd (Head (peer (snd kc)))) ps)))
     = (case map_of ps k of
          None \<Rightarrow> 0
        | Some c \<Rightarrow> if l < snd (Head (peer c)) then 1 else 0)"
proof (induction ps)
  case Nil
  then show ?case by simp
next
  case (Cons kc ps)
  then have wk: "wellKeyed ps" and fresh: "fst kc \<notin> fst ` set ps" and own: "peerID (snd kc) = fst kc"
    by (simp_all add: wellKeyed_Cons)
  show ?case
  proof (cases "fst kc = k")
    case True
    with fresh wk show ?thesis
      using absent_not_counted[OF wk, of k "\<lambda>kc. l < snd (Head (peer (snd kc)))"] own
      by (cases kc) (auto simp: filter_map comp_def)
  next
    case False
    with Cons.IH[OF wk] own show ?thesis by (cases kc) (auto simp: filter_map comp_def)
  qed
qed

lemma wellKeyed_NewDownloader: "wellKeyed (peers NewDownloader)"
  by (simp add: wellKeyed_def NewDownloader_def)

lemma wellKeyed_RegisterPeer: "wellKeyed (peers d) \<Longrightarrow> wellKeyed (peers (RegisterPeer d k p))"
proof -
  assume wk: "wellKeyed (peers d)"
  have upd: "list_all (\<lambda>kc. peerID (snd kc) = fst kc) ps \<Longrightarrow>
      list_all (\<lambda>kc. peerID (snd kc) = fst kc) (AList.update k (newPeerConn p k) ps)" for ps
    by (induction ps) (auto simp: newPeerConn_def)
  from wk show ?thesis
    by (auto simp: wellKeyed_def RegisterPeer_def Let_def spawn_def distinct_update upd)
qed

lemma wellKeyed_UnRegisterPeer: "wellKeyed (peers d) \<Longrightarrow> wellKeyed (peers (UnRegisterPeer d k))"
proof -
  assume wk: "wellKeyed (peers d)"
  have del: "list_all (\<lambda>kc. peerID (snd kc) = fst kc) ps \<Longrightarrow>
      list_all (\<lambda>kc. peerID (snd kc) = fst kc) (AList.delete k ps)" for ps
    by (induction ps) auto
  from wk show ?thesis
    by (auto simp: wellKeyed_def UnRegisterPeer_def distinct_delete del split: option.splits)
qed

lemma doSynchronise_spawned:
  assumes "fetchHeight conn script = Some (Inr latest)"
    and "fst (findCommonAncestorHeight chn (Height latest) (tl script)) = Some (Inr ancestor)"
    and "doSynchronise d chn conn head td localTD script join = Some (r, d')"
  shows "spawned d' =
     spawned d @ map snd (filter (\<lambda>kc. localTD < snd (Head (peer (snd kc)))) (peers d))"
  using assms
  by (auto simp: doSynchronise_def deferred_eq Fire_def Let_def spawnWorkers_spawned
      joinWorkers_frame split: option.splits if_splits)

text \<open>
  C5. In a session that reaches the fetching phase and returns, the workers spawned at
  the transition are: one for each peer of the table whose total difficulty is greater
  than \<open>localTD\<close>, none for any other, the master counted like every other peer of the
  table. \<^verbatim>\<open>RegisterPeer\<close> called while the status is \<^verbatim>\<open>statusFetching\<close> spawns a worker for
  the new connection whatever its total difficulty.
\<close>

theorem workers_spawned:
  "(fetchHeight conn script = Some (Inr latest)
      \<and> fst (findCommonAncestorHeight chn (Height latest) (tl script)) = Some (Inr ancestor)
      \<and> doSynchronise d chn conn head td localTD script join = Some (r, d')
      \<and> wellKeyed (peers d)
    \<longrightarrow> (\<exists>ws. spawned d' = spawned d @ ws
          \<and> (\<forall>k. length (filter (\<lambda>c. peerID c = k) ws)
                 = (case map_of (peers d) k of
                      None \<Rightarrow> 0
                    | Some c \<Rightarrow> if localTD < snd (Head (peer c)) then 1 else 0))
          \<and> length (filter (\<lambda>c. peerID c = masterPeer d) ws)
                 = (case map_of (peers d) (masterPeer d) of
                      None \<Rightarrow> 0
                    | Some c \<Rightarrow> if localTD < snd (Head (peer c)) then 1 else 0)))
   \<and> (syncStatus d = statusFetching \<longrightarrow>
        spawned (RegisterPeer d pid p) = spawned d @ [newPeerConn p pid]
        \<and> map_of (peers (RegisterPeer d pid p)) pid = Some (newPeerConn p pid))"
proof (intro conjI impI)
  assume a: "fetchHeight conn script = Some (Inr latest)
      \<and> fst (findCommonAncestorHeight chn (Height latest) (tl script)) = Some (Inr ancestor)
      \<and> doSynchronise d chn conn head td localTD script join = Some (r, d')
      \<and> wellKeyed (peers d)"
  let ?ws = "map snd (filter (\<lambda>kc. localTD < snd (Head (peer (snd kc)))) (peers d))"
  from a have "spawned d' = spawned d @ ?ws"
    using doSynchronise_spawned by blast
  moreover from a have "length (filter (\<lambda>c. peerID c = k) ?ws)
                 = (case map_of (peers d) k of
                      None \<Rightarrow> 0
                    | Some c \<Rightarrow> if localTD < snd (Head (peer c)) then 1 else 0)" for k
    using count_eligible[of "peers d" k localTD] by blast
  ultimately show "\<exists>ws. spawned d' = spawned d @ ws
          \<and> (\<forall>k. length (filter (\<lambda>c. peerID c = k) ws)
                 = (case map_of (peers d) k of
                      None \<Rightarrow> 0
                    | Some c \<Rightarrow> if localTD < snd (Head (peer c)) then 1 else 0))
          \<and> length (filter (\<lambda>c. peerID c = masterPeer d) ws)
                 = (case map_of (peers d) (masterPeer d) of
                      None \<Rightarrow> 0
                    | Some c \<Rightarrow> if localTD < snd (Head (peer c)) then 1 else 0)"
    by blast
next
  assume "syncStatus d = statusFetching"
  then show "spawned (RegisterPeer d pid p) = spawned d @ [newPeerConn p pid]"
    and "map_of (peers (RegisterPeer d pid p)) pid = Some (newPeerConn p pid)"
    by (simp_all add: RegisterPeer_def Let_def spawn_def update_conv')
qed


lemma ex_session_run:
  "doSynchronise exSession exChain (newPeerConn exPeer ''m'') 107 50 10 exScript exJoin
     = Some (None, snd (the (doSynchronise exSession exChain (newPeerConn exPeer ''m'') 107 50 10
                               exScript exJoin)))"
  by (simp add: doSynchronise_def ex_fetch ex_height ex_walk exJoin_def isDone_def closeTm_def
      deferred_eq Let_def list_all_iff)

lemma ex_wellKeyed: "wellKeyed (peers exDownloader)"
  by (simp add: exDownloader_def wellKeyed_RegisterPeer wellKeyed_NewDownloader)

text \<open>
  On the concrete table with \<open>localTD = 10\<close>: one worker for \<open>''m''\<close> (50), none for
  \<open>''q''\<close> (5); registered while fetching, a peer of total difficulty 5 gets a worker.
\<close>

theorem workers_spawned_witness:
  "fetchHeight (newPeerConn exPeer ''m'') exScript = Some (Inr (mkHeader 7 107))
   \<and> fst (findCommonAncestorHeight exChain (Height (mkHeader 7 107)) (tl exScript)) = Some (Inr 4)
   \<and> doSynchronise exSession exChain (newPeerConn exPeer ''m'') 107 50 10 exScript exJoin
       = Some (None, snd (the (doSynchronise exSession exChain (newPeerConn exPeer ''m'') 107 50 10
                                 exScript exJoin)))
   \<and> wellKeyed (peers exSession)
   \<and> (\<exists>ws. spawned (snd (the (doSynchronise exSession exChain (newPeerConn exPeer ''m'') 107 50 10
                                 exScript exJoin))) = spawned exSession @ ws
         \<and> length (filter (\<lambda>c. peerID c = ''m'') ws) = 1
         \<and> length (filter (\<lambda>c. peerID c = ''q'') ws) = 0
         \<and> length (filter (\<lambda>c. peerID c = ''z'') ws) = 0)
   \<and> syncStatus (exDownloader\<lparr>syncStatus := statusFetching\<rparr>) = statusFetching
   \<and> spawned (RegisterPeer (exDownloader\<lparr>syncStatus := statusFetching\<rparr>) ''w'' exWeakPeer)
       = spawned (exDownloader\<lparr>syncStatus := statusFetching\<rparr>) @ [newPeerConn exWeakPeer ''w'']"
proof -
  let ?d' = "snd (the (doSynchronise exSession exChain (newPeerConn exPeer ''m'') 107 50 10
                         exScript exJoin))"
  let ?f = "exDownloader\<lparr>syncStatus := statusFetching\<rparr>"
  have h1: "fetchHeight (newPeerConn exPeer ''m'') exScript = Some (Inr (mkHeader 7 107))"
    by (rule ex_fetch)
  have h2: "fst (findCommonAncestorHeight exChain (Height (mkHeader 7 107)) (tl exScript))
      = Some (Inr 4)"
    by (simp add: ex_height ex_walk)
  note h3 = ex_session_run
  have h4: "wellKeyed (peers exSession)"
    using ex_wellKeyed by (simp add: exSession_def)
  have h5: "syncStatus ?f = statusFetching" by simp
  have tab: "peers exSession = peers exDownloader"
    by (simp add: exSession_def)
  note inst = workers_spawned[of "newPeerConn exPeer ''m''" exScript "mkHeader 7 107" exChain 4
      exSession 107 50 10 exJoin None ?d']
  from inst h1 h2 h3 h4 obtain ws where ws: "spawned ?d' = spawned exSession @ ws"
    and cnt: "\<forall>k. length (filter (\<lambda>c. peerID c = k) ws)
                 = (case map_of (peers exSession) k of
                      None \<Rightarrow> 0
                    | Some c \<Rightarrow> if 10 < snd (Head (peer c)) then 1 else 0)"
    by blast
  from cnt have "length (filter (\<lambda>c. peerID c = ''m'') ws) = 1"
    and "length (filter (\<lambda>c. peerID c = ''q'') ws) = 0"
    and "length (filter (\<lambda>c. peerID c = ''z'') ws) = 0"
    by (simp_all add: tab ex_peers newPeerConn_def exPeer_def exWeakPeer_def Head_def)
  with ws have a: "\<exists>ws. spawned ?d' = spawned exSession @ ws
         \<and> length (filter (\<lambda>c. peerID c = ''m'') ws) = 1
         \<and> length (filter (\<lambda>c. peerID c = ''q'') ws) = 0
         \<and> length (filter (\<lambda>c. peerID c = ''z'') ws) = 0"
    by blast
  from workers_spawned[where d = ?f and pid = "''w''" and p = exWeakPeer] h5 have b: "spawned (RegisterPeer ?f ''w'' exWeakPeer) = spawned ?f @ [newPeerConn exWeakPeer ''w'']"
    by blast
  from h1 h2 h3 h4 a h5 b show ?thesis by blast
qed

subsection \<open>The exit of the master's worker\<close>

lemma Cancel_closes: "cancelCh d = Some c \<Longrightarrow> cancelCh (Cancel d) = Some ChClosed"
  by (cases c) (simp_all add: Cancel_def)



text \<open>A worker that returns has run \<open>workerExit\<close>.\<close>

lemma peerDownload_exit:
  "peerDownload d conn ts = Some (Inr (d', why, q)) \<Longrightarrow> d' = workerExit conn d \<and> q = peerID conn"
  by (auto simp: peerDownload_def workerExit_def Let_def split: option.splits if_splits)

text \<open>
  Workers that have run one after the other and returned leave the downloader that
  \<^verbatim>\<open>doSynchronise\<close> goes on with after \<^verbatim>\<open>sessionWG.Wait()\<close>.
\<close>

lemma runWorkers_join: "runWorkers ws d = Some d' \<Longrightarrow> d' = joinWorkers (map fst ws) d"
proof (induction ws arbitrary: d)
  case Nil
  then show ?case by simp
next
  case (Cons w ws)
  from Cons.prems obtain res where run: "peerDownload d (fst w) (snd w) = Some (Inr res)"
    and rest: "runWorkers ws (fst res) = Some d'"
    by (auto split: option.splits sum.splits)
  from run have "fst res = workerExit (fst w) d"
    using peerDownload_exit[of d "fst w" "snd w" "fst res" "fst (snd res)" "snd (snd res)"]
    by simp
  with Cons.IH[OF rest] show ?case by simp
qed









lemma ex_working: "masterPeer exWorking = ''m''" "cancelCh exWorking = Some ChOpen"
  "sessionWG exWorking = 1"
  by (simp_all add: exWorking_def exSession_def)








subsection \<open>Writing a run of blocks\<close>

lemma processBlocks_append:
  "accepted wb c (map block pre) \<Longrightarrow>
   processBlocks wb d c (pre @ rest) =
     (case processBlocks wb d (chainAfter wb c (map block pre)) rest of
        (d', c', hs', written) \<Rightarrow>
          (d', c', map (\<lambda>h. h\<lparr>status := taskStatusProcessed\<rparr>) pre @ hs', map block pre @ written))"
proof (induction pre arbitrary: c)
  case Nil
  then show ?case by (simp add: split_beta)
next
  case (Cons h pre)
  from Cons.prems have ok: "fst (wb c (block h)) = None \<or> fst (wb c (block h)) = Some ErrBlockAlreadyExist"
    and rest: "accepted wb (snd (wb c (block h))) (map block pre)"
    by simp_all
  from ok Cons.IH[OF rest] show ?case
    by (cases "wb c (block h)") (auto simp: split_beta)
qed

text \<open>
  C7. If every block of the run is written with the result \<^verbatim>\<open>nil\<close> or
  \<^verbatim>\<open>ErrBlockAlreadyExist\<close>, \<^verbatim>\<open>processBlocks\<close> writes all of them in order, marks all of them
  processed and does not cancel. If the blocks before \<open>h\<close> are written so and the write of
  \<open>h\<close> returns any other error, the session is cancelled, the entries before \<open>h\<close> are
  marked processed, \<open>h\<close> and the entries after it keep their status, and nothing
  after \<open>h\<close> is written. Cancelling closes the cancel channel of the session.
\<close>

theorem processBlocks_run:
  "(accepted wb c (map block hs) \<longrightarrow>
      processBlocks wb d c hs =
        (d, chainAfter wb c (map block hs), map (\<lambda>h. h\<lparr>status := taskStatusProcessed\<rparr>) hs,
         map block hs))
   \<and> (accepted wb c (map block pre)
        \<and> fst (wb (chainAfter wb c (map block pre)) (block h)) = Some e
        \<and> e \<noteq> ErrBlockAlreadyExist
      \<longrightarrow> processBlocks wb d c (pre @ h # post) =
            (Cancel d, snd (wb (chainAfter wb c (map block pre)) (block h)),
             map (\<lambda>h. h\<lparr>status := taskStatusProcessed\<rparr>) pre @ h # post,
             map block pre @ [block h]))
   \<and> (cancelCh d = Some ch \<longrightarrow> cancelCh (Cancel d) = Some ChClosed)"
proof (intro conjI impI)
  assume "accepted wb c (map block hs)"
  from processBlocks_append[OF this, of d "[]"]
  show "processBlocks wb d c hs =
        (d, chainAfter wb c (map block hs), map (\<lambda>h. h\<lparr>status := taskStatusProcessed\<rparr>) hs,
         map block hs)"
    by simp
next
  assume a: "accepted wb c (map block pre)
        \<and> fst (wb (chainAfter wb c (map block pre)) (block h)) = Some e
        \<and> e \<noteq> ErrBlockAlreadyExist"
  then have "processBlocks wb d (chainAfter wb c (map block pre)) (h # post) =
      (Cancel d, snd (wb (chainAfter wb c (map block pre)) (block h)), h # post, [block h])"
    by (simp add: split_beta)
  with a processBlocks_append[of wb c pre d "h # post"]
  show "processBlocks wb d c (pre @ h # post) =
            (Cancel d, snd (wb (chainAfter wb c (map block pre)) (block h)),
             map (\<lambda>h. h\<lparr>status := taskStatusProcessed\<rparr>) pre @ h # post,
             map block pre @ [block h])"
    by simp
next
  assume "cancelCh d = Some ch"
  then show "cancelCh (Cancel d) = Some ChClosed" by (rule Cancel_closes)
qed


text \<open>
  The chain holds the hash 105. The blocks 105 (which exists) and 106 are accepted; the
  block with the hash 0 is refused, and the block after it is neither written nor marked.
\<close>

theorem processBlocks_run_witness:
  "accepted exWrite [105] (map block [mkInfo 5 105, mkInfo 6 106])
   \<and> processBlocks exWrite exWorking [105] [mkInfo 5 105, mkInfo 6 106]
       = (exWorking, [105, 106],
          [(mkInfo 5 105)\<lparr>status := taskStatusProcessed\<rparr>,
           (mkInfo 6 106)\<lparr>status := taskStatusProcessed\<rparr>],
          [block (mkInfo 5 105), block (mkInfo 6 106)])
   \<and> fst (exWrite (chainAfter exWrite [105] (map block [mkInfo 5 105, mkInfo 6 106]))
             (block (mkInfo 7 0))) = Some (External ''invalid block'')
   \<and> External ''invalid block'' \<noteq> ErrBlockAlreadyExist
   \<and> processBlocks exWrite exWorking [105] ([mkInfo 5 105, mkInfo 6 106] @ mkInfo 7 0 # [mkInfo 8 108])
       = (Cancel exWorking, [105, 106],
          [(mkInfo 5 105)\<lparr>status := taskStatusProcessed\<rparr>,
           (mkInfo 6 106)\<lparr>status := taskStatusProcessed\<rparr>, mkInfo 7 0, mkInfo 8 108],
          [block (mkInfo 5 105), block (mkInfo 6 106), block (mkInfo 7 0)])
   \<and> cancelCh exWorking = Some ChOpen
   \<and> cancelCh (Cancel exWorking) = Some ChClosed"
proof -
  let ?pre = "[mkInfo 5 105, mkInfo 6 106]"
  have after: "chainAfter exWrite [105] [block (mkInfo 5 105), block (mkInfo 6 106)] = [105, 106]"
    by (simp add: exWrite_def mkInfo_def)
  have h1: "accepted exWrite [105] (map block ?pre)"
    by (simp add: exWrite_def mkInfo_def)
  have h2: "fst (exWrite (chainAfter exWrite [105] (map block ?pre)) (block (mkInfo 7 0)))
      = Some (External ''invalid block'')"
    by (simp add: after) (simp add: exWrite_def mkInfo_def)
  have h3: "External ''invalid block'' \<noteq> ErrBlockAlreadyExist"
    by simp
  have h4: "cancelCh exWorking = Some ChOpen"
    by (simp add: ex_working)
  have refused: "snd (exWrite [105, 106] (block (mkInfo 7 0))) = [105, 106]"
    by (simp add: exWrite_def mkInfo_def)
  from processBlocks_run[of exWrite "[105]" ?pre exWorking ?pre "mkInfo 7 0"
      "External ''invalid block''" "[mkInfo 8 108]" ChOpen] h1 h2 h3 h4
  have "processBlocks exWrite exWorking [105] ?pre
       = (exWorking, [105, 106],
          [(mkInfo 5 105)\<lparr>status := taskStatusProcessed\<rparr>,
           (mkInfo 6 106)\<lparr>status := taskStatusProcessed\<rparr>],
          [block (mkInfo 5 105), block (mkInfo 6 106)])"
    and "processBlocks exWrite exWorking [105] (?pre @ mkInfo 7 0 # [mkInfo 8 108])
       = (Cancel exWorking, [105, 106],
          [(mkInfo 5 105)\<lparr>status := taskStatusProcessed\<rparr>,
           (mkInfo 6 106)\<lparr>status := taskStatusProcessed\<rparr>, mkInfo 7 0, mkInfo 8 108],
          [block (mkInfo 5 105), block (mkInfo 6 106), block (mkInfo 7 0)])"
    and "cancelCh (Cancel exWorking) = Some ChClosed"
    by (simp_all add: after refused del: processBlocks.simps chainAfter.simps accepted.simps)
  with h1 h2 h3 h4 show ?thesis by blast
qed

end
